theory Spec2Isabelle
  imports Complex_Main
begin

section \<open>Shared data model\<close>

text \<open>
  A value of Prisma's \<open>Decimal\<close> is a rational number (every finite decimal is one); the
  arithmetic methods of the class round their result and are defined in the next section.
  A JavaScript \<open>Date\<close> is its \<open>getTime()\<close> value: an integer number of milliseconds.
  Row identifiers are strings. Every exception class the services throw is a constructor of
  \<open>error\<close>; a function that runs inside \<open>executeInTransaction\<close> returns
  \<open>Inl e\<close> when the callback throws (the store rolls the transaction back, so the caller
  keeps the state it passed in) and \<open>Inr\<close> with the committed state otherwise.
\<close>

type_synonym decimal = rat
type_synonym date = int

datatype error =
    NotFoundException string
  | BadRequestException string
  | ForbiddenException string
  | UnauthorizedException string
  | Error string
  | TypeError string

datatype LedgerEntryType =
    DEPOSIT_CONFIRMED | STAKE_CREATED | UNSTAKE_COMPLETED | REWARD_ACCRUED | REWARD_CLAIMED
  | WITHDRAWAL_REQUESTED | WITHDRAWAL_REJECTED | WITHDRAWAL_PAID | ADJUSTMENT | STAKE_CANCELLED

datatype LedgerDirection = CREDIT | DEBIT

record LedgerEntry =
  le_userId :: "string option"
  le_assetId :: string
  le_chainId :: string
  le_entryType :: LedgerEntryType
  le_direction :: LedgerDirection
  le_amount :: decimal
  le_balanceAfter :: "decimal option"
  le_referenceType :: string
  le_referenceId :: string

record CreateLedgerEntryParams =
  p_userId :: "string option"
  p_assetId :: string
  p_chainId :: string
  p_entryType :: LedgerEntryType
  p_direction :: LedgerDirection
  p_amount :: decimal
  p_referenceType :: string
  p_referenceId :: string

section \<open>Decimal arithmetic and date formatting (decimal.js, Date.prototype)\<close>

text \<open>
  \<open>Decimal\<close> is the class of decimal.js that Prisma's runtime exports, at the library's
  default settings: \<open>precision\<close> 20 and rounding mode \<open>ROUND_HALF_UP\<close>. The methods
  \<open>plus\<close>/\<open>add\<close>, \<open>minus\<close>/\<open>sub\<close>, \<open>times\<close>/\<open>mul\<close> and \<open>dividedBy\<close>/\<open>div\<close> return the
  exact result rounded to 20 significant digits, a tie going away from zero, which is what
  \<open>finalise\<close> does with the result of each of them. The class has no method \<open>subtract\<close>.
  Comparisons and the constructor do not round, and neither do the store's own
  \<open>increment\<close>, \<open>decrement\<close> and \<open>_sum\<close>, which are exact sums here.

  \<open>decExponent x\<close> is the decimal exponent of a non-zero \<open>x\<close>, the \<open>e\<close> with
  \<open>10^e \<le> |x| < 10^(e+1)\<close>: for \<open>|x| \<ge> 1\<close> the number of digits of its integer part less
  one, and below 1 the negated number of digits of the greatest integer below \<open>1 / |x|\<close>.
\<close>

definition pow10 :: "int \<Rightarrow> rat" where
  "pow10 e = (if 0 \<le> e then 10 ^ nat e else 1 / 10 ^ nat (- e))"

function decDigits :: "int \<Rightarrow> nat" where
  "decDigits n = (if n \<le> 0 then 0 else Suc (decDigits (n div 10)))"
  by pat_completeness auto
termination
  by (relation "measure nat") auto

declare decDigits.simps [simp del]

definition decExponent :: "rat \<Rightarrow> int" where
  "decExponent x =
     (if 1 \<le> \<bar>x\<bar> then int (decDigits \<lfloor>\<bar>x\<bar>\<rfloor>) - 1
      else - int (decDigits (\<lceil>1 / \<bar>x\<bar>\<rceil> - 1)))"

definition finalise :: "rat \<Rightarrow> rat" where
  "finalise x =
     (if x = 0 then 0
      else (let q = pow10 (decExponent x - 19)
            in sgn x * of_int \<lfloor>\<bar>x\<bar> / q + 1 / 2\<rfloor> * q))"

definition Decimal_add :: "decimal \<Rightarrow> decimal \<Rightarrow> decimal" where
  "Decimal_add x y = finalise (x + y)"

definition Decimal_sub :: "decimal \<Rightarrow> decimal \<Rightarrow> decimal" where
  "Decimal_sub x y = finalise (x - y)"

definition Decimal_mul :: "decimal \<Rightarrow> decimal \<Rightarrow> decimal" where
  "Decimal_mul x y = finalise (x * y)"

definition Decimal_div :: "decimal \<Rightarrow> decimal \<Rightarrow> decimal" where
  "Decimal_div x y = finalise (x / y)"

text \<open>
  \<open>toISOString\<close> of a \<open>Date\<close>: \<open>YYYY-MM-DDTHH:mm:ss.sssZ\<close> in UTC, the year with a sign and
  six digits when it is outside 0..9999. The day count since 1970-01-01 is turned into a
  date of the proleptic Gregorian calendar by counting in 400-year eras that start on a
  1st of March.
\<close>

definition digitChar :: "int \<Rightarrow> char" where
  "digitChar d =
     (if d = 0 then CHR ''0'' else if d = 1 then CHR ''1'' else if d = 2 then CHR ''2''
      else if d = 3 then CHR ''3'' else if d = 4 then CHR ''4'' else if d = 5 then CHR ''5''
      else if d = 6 then CHR ''6'' else if d = 7 then CHR ''7'' else if d = 8 then CHR ''8''
      else CHR ''9'')"

definition digits2 :: "int \<Rightarrow> string" where
  "digits2 n = [digitChar (n div 10 mod 10), digitChar (n mod 10)]"

definition digits3 :: "int \<Rightarrow> string" where
  "digits3 n = digitChar (n div 100 mod 10) # digits2 n"

definition digits4 :: "int \<Rightarrow> string" where
  "digits4 n = digitChar (n div 1000 mod 10) # digits3 n"

definition digits6 :: "int \<Rightarrow> string" where
  "digits6 n = digitChar (n div 100000 mod 10) # digitChar (n div 10000 mod 10) # digits4 n"

definition toISOString :: "date \<Rightarrow> string" where
  "toISOString t =
     (let msOfDay = t mod 86400000;
          z = t div 86400000 + 719468;
          era = z div 146097;
          doe = z mod 146097;
          yoe = (doe - doe div 1460 + doe div 36524 - doe div 146096) div 365;
          doy = doe - (365 * yoe + yoe div 4 - yoe div 100);
          mp = (5 * doy + 2) div 153;
          d = doy - (153 * mp + 2) div 5 + 1;
          m = (if mp < 10 then mp + 3 else mp - 9);
          y = yoe + era * 400 + (if m \<le> 2 then 1 else 0);
          year = (if 0 \<le> y \<and> y \<le> 9999 then digits4 y
                  else (if y < 0 then ''-'' else ''+'') @ digits6 \<bar>y\<bar>)
      in year @ ''-'' @ digits2 m @ ''-'' @ digits2 d @ ''T'' @
         digits2 (msOfDay div 3600000) @ '':'' @ digits2 (msOfDay div 60000 mod 60) @ '':'' @
         digits2 (msOfDay div 1000 mod 60) @ ''.'' @ digits3 (msOfDay mod 1000) @ ''Z'')"

section \<open>LedgerService (ledger.service.ts)\<close>

text \<open>
  \<open>calculateBalance\<close>: the two aggregates over the rows of one (userId, assetId, chainId);
  an aggregate over no rows is \<open>null\<close> and is replaced by \<open>Decimal(0)\<close>, which is what
  \<open>sum_list\<close> gives on the empty list. The difference is taken with \<open>minus\<close>.
\<close>

definition calculateBalance :: "LedgerEntry list \<Rightarrow> string \<Rightarrow> string \<Rightarrow> string \<Rightarrow> decimal" where
  "calculateBalance L userId assetId chainId =
     (let creditSum = sum_list (map le_amount (filter (\<lambda>e. le_userId e = Some userId \<and>
            le_assetId e = assetId \<and> le_chainId e = chainId \<and> le_direction e = CREDIT) L));
          debitSum = sum_list (map le_amount (filter (\<lambda>e. le_userId e = Some userId \<and>
            le_assetId e = assetId \<and> le_chainId e = chainId \<and> le_direction e = DEBIT) L))
      in Decimal_sub creditSum debitSum)"

text \<open>
  \<open>createEntry\<close>: an amount given as a string is taken as its decimal value. The guard
  \<open>if (params.userId)\<close> is JavaScript truthiness, false for \<open>null\<close> and for the empty
  string. The result is the created row and the ledger with the row appended.

  For a user's entry whose direction is not CREDIT the source evaluates
  \<open>currentBalance.subtract(amount)\<close>. \<open>currentBalance\<close> is the \<open>Decimal\<close> that
  \<open>calculateBalance\<close> returned and \<open>Decimal\<close> has no \<open>subtract\<close>, so the call of the
  undefined property throws a \<open>TypeError\<close>; the test \<open>balanceAfter.lessThan(0)\<close> and the
  \<open>throw\<close> of 'Insufficient balance for debit' on the following lines are never reached.
\<close>

definition truthy_str :: "string option \<Rightarrow> bool" where
  "truthy_str v = (case v of None \<Rightarrow> False | Some s \<Rightarrow> s \<noteq> [])"

definition mkEntry :: "CreateLedgerEntryParams \<Rightarrow> decimal option \<Rightarrow> LedgerEntry" where
  "mkEntry p balanceAfter =
     \<lparr>le_userId = p_userId p, le_assetId = p_assetId p, le_chainId = p_chainId p,
      le_entryType = p_entryType p, le_direction = p_direction p, le_amount = p_amount p,
      le_balanceAfter = balanceAfter, le_referenceType = p_referenceType p,
      le_referenceId = p_referenceId p\<rparr>"

definition createEntry ::
  "LedgerEntry list \<Rightarrow> CreateLedgerEntryParams \<Rightarrow> error + (LedgerEntry \<times> LedgerEntry list)" where
  "createEntry L p =
     (if p_amount p \<le> 0 then Inl (BadRequestException ''Ledger entry amount must be positive'')
      else if truthy_str (p_userId p) then
        (let currentBalance = calculateBalance L (the (p_userId p)) (p_assetId p) (p_chainId p) in
         if p_direction p = CREDIT then
           (let balanceAfter = Decimal_add currentBalance (p_amount p) in
            Inr (mkEntry p (Some balanceAfter), L @ [mkEntry p (Some balanceAfter)]))
         else Inl (TypeError ''currentBalance.subtract is not a function''))
      else Inr (mkEntry p None, L @ [mkEntry p None]))"

section \<open>The store\<close>

text \<open>
  The tables of the Prisma client that the modelled functions read or write. A unique
  lookup is \<open>find\<close> on the table's list; a relation that the schema requires (the pool
  of a stake, the asset of a pool, the chain of a request) is looked up by its key.
  Formatted message texts (\<open>description\<close>, \<open>message\<close>) and columns no modelled function
  reads are left out of the rows.
\<close>

datatype WithdrawalStatus =
    PENDING_REVIEW | APPROVED | REJECTED | PROCESSING | SENT | CONFIRMING | CONFIRMED
  | COMPLETED | PAID_MANUALLY | FAILED

datatype PayoutStatus = PTX_PENDING | PTX_SENT | PTX_CONFIRMING | PTX_CONFIRMED | PTX_FAILED

datatype StakeStatus = ACTIVE | UNSTAKING | STAKE_COMPLETED | CANCELLED

datatype FraudType = NEW_ADDRESS | HIGH_AMOUNT | VELOCITY | SUSPICIOUS_PATTERN

datatype Severity = LOW | MEDIUM | HIGH

datatype Role = USER | SUPPORT | ADMIN | SUPER_ADMIN

record FraudIndicator =
  fi_type :: FraudType
  fi_severity :: Severity
  fi_score :: int

record BalanceCache =
  available :: decimal
  staked :: decimal
  rewardsAccrued :: decimal
  withdrawalsPending :: decimal

type_synonym balkey = "string \<times> string \<times> string"

record WithdrawalRequest =
  wr_id :: string
  wr_userId :: string
  wr_assetId :: string
  wr_chainId :: string
  wr_amount :: decimal
  wr_fee :: decimal
  wr_netAmount :: decimal
  wr_destinationAddress :: string
  wr_status :: WithdrawalStatus
  wr_userNotes :: "string option"
  wr_adminNotes :: "string option"
  wr_reviewedBy :: "string option"
  wr_reviewedAt :: "date option"
  wr_manualProofUrl :: "string option"
  wr_manualProofNotes :: "string option"
  wr_idempotencyKey :: string
  wr_fraudScore :: int
  wr_fraudIndicators :: "FraudIndicator list"
  wr_createdAt :: date

record PayoutTx =
  ptx_id :: string
  ptx_withdrawalRequestId :: string
  ptx_txHash :: "string option"
  ptx_status :: PayoutStatus
  ptx_confirmations :: int
  ptx_gasUsed :: "int option"
  ptx_errorMessage :: "string option"
  ptx_confirmedAt :: "date option"

record Notification =
  n_userId :: string
  n_type :: string
  n_title :: string
  n_refId :: string

record Chain =
  ch_id :: string
  ch_confirmationsRequired :: int
  ch_isActive :: bool

record Asset =
  as_id :: string
  as_chainId :: string
  as_decimals :: nat
  as_contractAddress :: "string option"
  as_isNative :: bool
  as_isActive :: bool
  as_priceUsd :: decimal

record User =
  us_id :: string
  us_email :: string
  us_passwordHash :: string
  us_role :: Role
  us_emailVerified :: bool
  us_twoFactorEnabled :: bool
  us_isActive :: bool
  us_createdAt :: date
  us_dailyWithdrawalLimit :: decimal
  us_lastLoginAt :: "date option"

record AddressWhitelist =
  aw_userId :: string
  aw_chainId :: string
  aw_address :: string
  aw_label :: "string option"
  aw_cooldownEndsAt :: date

record StakePosition =
  sp_id :: string
  sp_userId :: string
  sp_poolId :: string
  sp_amount :: decimal
  sp_rewardsAccrued :: decimal
  sp_rewardsClaimed :: decimal
  sp_lastRewardCalculation :: date
  sp_status :: StakeStatus
  sp_lockedUntil :: "date option"
  sp_cooldownEndsAt :: "date option"
  sp_unstakeRequestedAt :: "date option"
  sp_unstakedAt :: "date option"

record Pool =
  pl_id :: string
  pl_assetId :: string
  pl_currentApr :: decimal
  pl_totalStaked :: decimal
  pl_cooldownHours :: int

record AprSchedule =
  ap_poolId :: string
  ap_apr :: decimal
  ap_effectiveFrom :: date
  ap_effectiveTo :: "date option"

record TwoFactorSecret =
  tf_userId :: string
  tf_encryptedSecret :: string
  tf_isVerified :: bool

record RecoveryCode =
  rc_id :: string
  rc_userId :: string
  rc_codeHash :: string
  rc_isUsed :: bool
  rc_usedAt :: "date option"

record Session =
  se_id :: string
  se_userId :: string
  se_refreshToken :: string
  se_ipAddress :: string
  se_userAgent :: string
  se_expiresAt :: date

datatype DepositStatus = DEP_AWAITING | DEP_CONFIRMING | DEP_CONFIRMED | DEP_FAILED

record DepositAddress =
  da_id :: string
  da_userId :: string
  da_chainId :: string
  da_address :: string
  da_isActive :: bool

record Deposit =
  dp_id :: string
  dp_userId :: string
  dp_assetId :: string
  dp_chainId :: string
  dp_depositAddressId :: string
  dp_txHash :: string
  dp_logIndex :: int
  dp_fromAddress :: string
  dp_amount :: decimal
  dp_status :: DepositStatus
  dp_confirmations :: int
  dp_confirmedAt :: "date option"

record db =
  ledgerEntry :: "LedgerEntry list"
  balanceCache :: "balkey \<rightharpoonup> BalanceCache"
  withdrawalRequest :: "WithdrawalRequest list"
  payoutTx :: "PayoutTx list"
  notification :: "Notification list"
  chain :: "Chain list"
  asset :: "Asset list"
  user :: "User list"
  addressWhitelist :: "AddressWhitelist list"
  stakePosition :: "StakePosition list"
  pool :: "Pool list"
  aprSchedule :: "AprSchedule list"
  twoFactorSecret :: "TwoFactorSecret list"
  recoveryCode :: "RecoveryCode list"
  session :: "Session list"
  systemConfig :: "string \<rightharpoonup> int"
  depositAddress :: "DepositAddress list"
  deposit :: "Deposit list"

definition emptyDb :: db where
  "emptyDb = \<lparr>ledgerEntry = [], balanceCache = Map.empty, withdrawalRequest = [], payoutTx = [],
     notification = [], chain = [], asset = [], user = [], addressWhitelist = [],
     stakePosition = [], pool = [], aprSchedule = [], twoFactorSecret = [], recoveryCode = [],
     session = [], systemConfig = Map.empty, depositAddress = [], deposit = []\<rparr>"

text \<open>\<open>update({where, data})\<close> on a list table: the rows the unique key selects are replaced.\<close>

definition updateWhere :: "('a \<Rightarrow> bool) \<Rightarrow> ('a \<Rightarrow> 'a) \<Rightarrow> 'a list \<Rightarrow> 'a list" where
  "updateWhere P f xs = map (\<lambda>x. if P x then f x else x) xs"

text \<open>
  \<open>balanceCache.update\<close> throws when no row has the key (Prisma's record-not-found error);
  \<open>balanceCache.upsert\<close> creates the row instead.
\<close>

definition updateBalanceCache ::
  "db \<Rightarrow> balkey \<Rightarrow> (BalanceCache \<Rightarrow> BalanceCache) \<Rightarrow> error + db" where
  "updateBalanceCache s k f =
     (case balanceCache s k of
        None \<Rightarrow> Inl (Error ''Record to update not found'')
      | Some b \<Rightarrow> Inr (s\<lparr>balanceCache := (balanceCache s)(k \<mapsto> f b)\<rparr>))"

definition upsertBalanceCache ::
  "db \<Rightarrow> balkey \<Rightarrow> BalanceCache \<Rightarrow> (BalanceCache \<Rightarrow> BalanceCache) \<Rightarrow> db" where
  "upsertBalanceCache s k created f =
     (case balanceCache s k of
        None \<Rightarrow> s\<lparr>balanceCache := (balanceCache s)(k \<mapsto> created)\<rparr>
      | Some b \<Rightarrow> s\<lparr>balanceCache := (balanceCache s)(k \<mapsto> f b)\<rparr>)"

section \<open>BalanceService (ledger.service.ts, second part)\<close>

definition reserveForWithdrawal ::
  "db \<Rightarrow> string \<Rightarrow> string \<Rightarrow> string \<Rightarrow> decimal \<Rightarrow> string \<Rightarrow> error + db" where
  "reserveForWithdrawal s userId assetId chainId amount withdrawalRequestId =
     (case balanceCache s (userId, assetId, chainId) of
        None \<Rightarrow> Inl (BadRequestException ''Insufficient available balance'')
      | Some balance \<Rightarrow>
          if available balance < amount
          then Inl (BadRequestException ''Insufficient available balance'')
          else
            (case createEntry (ledgerEntry s)
                    \<lparr>p_userId = Some userId, p_assetId = assetId, p_chainId = chainId,
                     p_entryType = WITHDRAWAL_REQUESTED, p_direction = DEBIT, p_amount = amount,
                     p_referenceType = ''WithdrawalRequest'',
                     p_referenceId = withdrawalRequestId\<rparr> of
               Inl e \<Rightarrow> Inl e
             | Inr (entry, L') \<Rightarrow>
                 updateBalanceCache (s\<lparr>ledgerEntry := L'\<rparr>) (userId, assetId, chainId)
                   (\<lambda>b. b\<lparr>available := available b - amount,
                           withdrawalsPending := withdrawalsPending b + amount\<rparr>)))"

text \<open>
  \<open>finalizeWithdrawal\<close> passes \<open>new Decimal(0)\<close> as the amount of the WITHDRAWAL_PAID
  entry (source comment: already debited during reserve), whatever \<open>params.amount\<close> is.
\<close>

definition finalizeWithdrawal ::
  "db \<Rightarrow> string \<Rightarrow> string \<Rightarrow> string \<Rightarrow> decimal \<Rightarrow> string \<Rightarrow> error + db" where
  "finalizeWithdrawal s userId assetId chainId amount withdrawalRequestId =
     (case createEntry (ledgerEntry s)
             \<lparr>p_userId = Some userId, p_assetId = assetId, p_chainId = chainId,
              p_entryType = WITHDRAWAL_PAID, p_direction = DEBIT, p_amount = 0,
              p_referenceType = ''WithdrawalRequest'',
              p_referenceId = withdrawalRequestId\<rparr> of
        Inl e \<Rightarrow> Inl e
      | Inr (entry, L') \<Rightarrow>
          updateBalanceCache (s\<lparr>ledgerEntry := L'\<rparr>) (userId, assetId, chainId)
            (\<lambda>b. b\<lparr>withdrawalsPending := withdrawalsPending b - amount\<rparr>))"

definition unstakeToBalance ::
  "db \<Rightarrow> string \<Rightarrow> string \<Rightarrow> string \<Rightarrow> decimal \<Rightarrow> string \<Rightarrow> error + db" where
  "unstakeToBalance s userId assetId chainId amount stakePositionId =
     (case createEntry (ledgerEntry s)
             \<lparr>p_userId = Some userId, p_assetId = assetId, p_chainId = chainId,
              p_entryType = UNSTAKE_COMPLETED, p_direction = CREDIT, p_amount = amount,
              p_referenceType = ''StakePosition'', p_referenceId = stakePositionId\<rparr> of
        Inl e \<Rightarrow> Inl e
      | Inr (entry, L') \<Rightarrow>
          updateBalanceCache (s\<lparr>ledgerEntry := L'\<rparr>) (userId, assetId, chainId)
            (\<lambda>b. b\<lparr>available := available b + amount, staked := staked b - amount\<rparr>))"

section \<open>FraudService (fraud.service.ts)\<close>

text \<open>
  The four thresholds are read once in the constructor, each as
  \<open>configService.get(...) || default\<close>: a missing or zero value gives the default.
  \<open>toLowerCase\<close> is modelled on ASCII letters, the only letters of an address that passed
  the request validation.
\<close>

record FraudService =
  newAddressCooldownHours :: int
  dailyWithdrawalLimitUsd :: decimal
  largeWithdrawalThresholdUsd :: decimal
  maxDailyWithdrawalRequests :: int

definition orDefault :: "'a::zero option \<Rightarrow> 'a \<Rightarrow> 'a" where
  "orDefault v d = (case v of None \<Rightarrow> d | Some x \<Rightarrow> if x = 0 then d else x)"

definition newFraudService ::
  "int option \<Rightarrow> decimal option \<Rightarrow> decimal option \<Rightarrow> int option \<Rightarrow> FraudService" where
  "newFraudService cooldownHours dailyLimit largeThreshold maxRequests =
     \<lparr>newAddressCooldownHours = orDefault cooldownHours 24,
      dailyWithdrawalLimitUsd = orDefault dailyLimit 10000,
      largeWithdrawalThresholdUsd = orDefault largeThreshold 5000,
      maxDailyWithdrawalRequests = orDefault maxRequests 5\<rparr>"

definition lowerChar :: "char \<Rightarrow> char" where
  "lowerChar c =
     (case map_of (zip ''ABCDEFGHIJKLMNOPQRSTUVWXYZ'' ''abcdefghijklmnopqrstuvwxyz'') c of
        None \<Rightarrow> c
      | Some l \<Rightarrow> l)"

definition toLowerCase :: "string \<Rightarrow> string" where
  "toLowerCase s = map lowerChar s"

definition checkNewAddress :: "db \<Rightarrow> date \<Rightarrow> string \<Rightarrow> string \<Rightarrow> string \<Rightarrow> FraudIndicator option" where
  "checkNewAddress s now userId address chainId =
     (case find (\<lambda>w. aw_userId w = userId \<and> aw_chainId w = chainId \<and>
                      aw_address w = toLowerCase address) (addressWhitelist s) of
        None \<Rightarrow> Some \<lparr>fi_type = NEW_ADDRESS, fi_severity = MEDIUM, fi_score = 30\<rparr>
      | Some whitelisted \<Rightarrow>
          if aw_cooldownEndsAt whitelisted > now
          then Some \<lparr>fi_type = NEW_ADDRESS, fi_severity = HIGH, fi_score = 50\<rparr>
          else None)"

definition checkLargeAmount :: "FraudService \<Rightarrow> db \<Rightarrow> decimal \<Rightarrow> string \<Rightarrow> FraudIndicator option" where
  "checkLargeAmount svc s amount assetId =
     (case find (\<lambda>a. as_id a = assetId) (asset s) of
        None \<Rightarrow> None
      | Some a \<Rightarrow>
          (let usdValue = Decimal_mul amount (as_priceUsd a) in
           if usdValue > largeWithdrawalThresholdUsd svc then
             (let severity = (if usdValue > dailyWithdrawalLimitUsd svc then HIGH else MEDIUM) in
              Some \<lparr>fi_type = HIGH_AMOUNT, fi_severity = severity,
                    fi_score = (if severity = HIGH then 40 else 20)\<rparr>)
           else None))"

definition checkVelocity :: "FraudService \<Rightarrow> db \<Rightarrow> date \<Rightarrow> string \<Rightarrow> FraudIndicator option" where
  "checkVelocity svc s now userId =
     (let oneDayAgo = now - 24 * 60 * 60 * 1000;
          recentRequests = int (length (filter (\<lambda>w. wr_userId w = userId \<and>
                                 wr_createdAt w \<ge> oneDayAgo) (withdrawalRequest s))) in
      if recentRequests \<ge> maxDailyWithdrawalRequests svc
      then Some \<lparr>fi_type = VELOCITY, fi_severity = HIGH, fi_score = 40\<rparr>
      else if (of_int recentRequests :: rat) \<ge> of_int (maxDailyWithdrawalRequests svc) * (7 / 10)
      then Some \<lparr>fi_type = VELOCITY, fi_severity = MEDIUM, fi_score = 20\<rparr>
      else None)"

definition priceOf :: "db \<Rightarrow> string \<Rightarrow> decimal" where
  "priceOf s assetId = (case find (\<lambda>a. as_id a = assetId) (asset s) of
                          None \<Rightarrow> 0 | Some a \<Rightarrow> as_priceUsd a)"

definition checkDailyLimit ::
  "db \<Rightarrow> date \<Rightarrow> string \<Rightarrow> decimal \<Rightarrow> string \<Rightarrow> FraudIndicator option" where
  "checkDailyLimit s now userId newAmount assetId =
     (let oneDayAgo = now - 24 * 60 * 60 * 1000 in
      case find (\<lambda>a. as_id a = assetId) (asset s) of
        None \<Rightarrow> None
      | Some a \<Rightarrow>
          (case find (\<lambda>u. us_id u = userId) (user s) of
             None \<Rightarrow> None
           | Some u \<Rightarrow>
               (let recentWithdrawals = filter (\<lambda>w. wr_userId w = userId \<and>
                       wr_createdAt w \<ge> oneDayAgo \<and> wr_status w \<noteq> REJECTED \<and>
                       wr_status w \<noteq> FAILED) (withdrawalRequest s);
                    totalUsd = fold (\<lambda>w totalUsd. Decimal_add totalUsd
                                        (Decimal_mul (wr_amount w) (priceOf s (wr_assetId w))))
                                 recentWithdrawals 0;
                    newTotalUsd = Decimal_add totalUsd (Decimal_mul newAmount (as_priceUsd a)) in
                if newTotalUsd > us_dailyWithdrawalLimit u
                then Some \<lparr>fi_type = HIGH_AMOUNT, fi_severity = HIGH, fi_score = 50\<rparr>
                else None)))"

text \<open>
  \<open>checkPatterns\<close> returns one indicator or \<open>null\<close>: the new-account branch returns
  before the unverified-email test is reached.
\<close>

definition checkPatterns :: "db \<Rightarrow> date \<Rightarrow> string \<Rightarrow> FraudIndicator option" where
  "checkPatterns s now userId =
     (case find (\<lambda>u. us_id u = userId) (user s) of
        None \<Rightarrow> None
      | Some u \<Rightarrow>
          (let accountAgeMs = now - us_createdAt u;
               accountAgeDays = (of_int accountAgeMs :: rat) / (24 * 60 * 60 * 1000) in
           if accountAgeDays < 7
           then Some \<lparr>fi_type = SUSPICIOUS_PATTERN, fi_severity = MEDIUM, fi_score = 25\<rparr>
           else if \<not> us_emailVerified u
           then Some \<lparr>fi_type = SUSPICIOUS_PATTERN, fi_severity = LOW, fi_score = 15\<rparr>
           else None))"

definition pushIf :: "'a list \<Rightarrow> 'a option \<Rightarrow> 'a list" where
  "pushIf xs c = (case c of None \<Rightarrow> xs | Some x \<Rightarrow> xs @ [x])"

record FraudAnalysis =
  indicators :: "FraudIndicator list"
  totalScore :: int

definition analyzeWithdrawalRequest ::
  "FraudService \<Rightarrow> db \<Rightarrow> date \<Rightarrow> string \<Rightarrow> string \<Rightarrow> decimal \<Rightarrow> string \<Rightarrow> string \<Rightarrow> FraudAnalysis" where
  "analyzeWithdrawalRequest svc s now userId destinationAddress amount assetId chainId =
     (let i1 = pushIf [] (checkNewAddress s now userId destinationAddress chainId);
          i2 = pushIf i1 (checkLargeAmount svc s amount assetId);
          i3 = pushIf i2 (checkVelocity svc s now userId);
          i4 = pushIf i3 (checkDailyLimit s now userId amount assetId);
          i5 = pushIf i4 (checkPatterns s now userId)
      in \<lparr>indicators = i5, totalScore = fold (\<lambda>ind sum. sum + fi_score ind) i5 0\<rparr>)"

definition addToWhitelist ::
  "FraudService \<Rightarrow> db \<Rightarrow> date \<Rightarrow> string \<Rightarrow> string \<Rightarrow> string \<Rightarrow> string option \<Rightarrow> db" where
  "addToWhitelist svc s now userId chainId address label =
     (let cooldownEndsAt = now + newAddressCooldownHours svc * 60 * 60 * 1000;
          hit = (\<lambda>w. aw_userId w = userId \<and> aw_chainId w = chainId \<and>
                      aw_address w = toLowerCase address) in
      case find hit (addressWhitelist s) of
        None \<Rightarrow> s\<lparr>addressWhitelist := addressWhitelist s @
                   [\<lparr>aw_userId = userId, aw_chainId = chainId, aw_address = toLowerCase address,
                     aw_label = label, aw_cooldownEndsAt = cooldownEndsAt\<rparr>]\<rparr>
      | Some w \<Rightarrow> s\<lparr>addressWhitelist := updateWhere hit
                   (\<lambda>w. case label of None \<Rightarrow> w | Some l \<Rightarrow> w\<lparr>aw_label := Some l\<rparr>)
                   (addressWhitelist s)\<rparr>)"

section \<open>WithdrawalsService (withdrawals.service.ts)\<close>

text \<open>
  \<open>createRequest\<close>. The amount string has passed the request validation and is given as
  its decimal value; \<open>newId\<close> is the identifier the store gives the created row and
  \<open>now\<close> the clock. The fraud analysis and \<open>addToWhitelist\<close> go through the service's own
  client, not the transaction client, so the whitelist row stays when the transaction
  callback throws later: the function returns the outcome together with the state left
  behind. The response to a new request carries the disclaimer text, the response to a
  repeated key is the stored row alone. The request row and the reservation are written
  through the transaction client: when \<open>reserveForWithdrawal\<close> throws, the created row is
  rolled back with the rest of the transaction.
\<close>

record CreateRequestParams =
  cr_assetId :: string
  cr_chainId :: string
  cr_amount :: decimal
  cr_destinationAddress :: string
  cr_userNotes :: "string option"
  cr_idempotencyKey :: string

definition WITHDRAWAL_DISCLAIMER :: string where
  "WITHDRAWAL_DISCLAIMER = ''Withdrawals require admin review. Processing time may vary. This is not an instant withdrawal.''"

definition createRequest ::
  "FraudService \<Rightarrow> db \<Rightarrow> date \<Rightarrow> string \<Rightarrow> string \<Rightarrow> CreateRequestParams
     \<Rightarrow> (error + (WithdrawalRequest \<times> string option)) \<times> db" where
  "createRequest svc s now newId userId params =
     (case find (\<lambda>r. wr_idempotencyKey r = cr_idempotencyKey params) (withdrawalRequest s) of
        Some existing \<Rightarrow> (Inr (existing, None), s)
      | None \<Rightarrow>
          (let amount = cr_amount params in
           case find (\<lambda>a. as_id a = cr_assetId params) (asset s) of
             None \<Rightarrow> (Inl (NotFoundException ''Asset not found''), s)
           | Some a \<Rightarrow>
               if \<not> as_isActive a
               then (Inl (BadRequestException ''Asset is not available for withdrawal''), s)
               else
                 (let feePercent = (1 / 1000 :: decimal);
                      minFee = (1 / 10000 :: decimal);
                      fee = (if Decimal_mul amount feePercent < minFee then minFee
                             else Decimal_mul amount feePercent);
                      netAmount = Decimal_sub amount fee in
                  if netAmount \<le> 0
                  then (Inl (BadRequestException ''Amount too small after fees''), s)
                  else
                    (case balanceCache s (userId, cr_assetId params, cr_chainId params) of
                       None \<Rightarrow> (Inl (BadRequestException ''Insufficient available balance''), s)
                     | Some balance \<Rightarrow>
                         if available balance < amount
                         then (Inl (BadRequestException ''Insufficient available balance''), s)
                         else
                           (let fraudAnalysis = analyzeWithdrawalRequest svc s now userId
                                  (cr_destinationAddress params) amount (cr_assetId params)
                                  (cr_chainId params);
                                s1 = addToWhitelist svc s now userId (cr_chainId params)
                                  (cr_destinationAddress params) None;
                                request = \<lparr>wr_id = newId, wr_userId = userId,
                                  wr_assetId = cr_assetId params, wr_chainId = cr_chainId params,
                                  wr_amount = amount, wr_fee = fee, wr_netAmount = netAmount,
                                  wr_destinationAddress = toLowerCase (cr_destinationAddress params),
                                  wr_status = PENDING_REVIEW, wr_userNotes = cr_userNotes params,
                                  wr_adminNotes = None, wr_reviewedBy = None, wr_reviewedAt = None,
                                  wr_manualProofUrl = None, wr_manualProofNotes = None,
                                  wr_idempotencyKey = cr_idempotencyKey params,
                                  wr_fraudScore = totalScore fraudAnalysis,
                                  wr_fraudIndicators = indicators fraudAnalysis,
                                  wr_createdAt = now\<rparr>;
                                s2 = s1\<lparr>withdrawalRequest := withdrawalRequest s1 @ [request]\<rparr>
                            in case reserveForWithdrawal s2 userId (cr_assetId params)
                                      (cr_chainId params) amount (wr_id request) of
                                 Inl e \<Rightarrow> (Inl e, s1)
                               | Inr s3 \<Rightarrow> (Inr (request, Some WITHDRAWAL_DISCLAIMER), s3))))))"

fun statusName :: "WithdrawalStatus \<Rightarrow> string" where
  "statusName PENDING_REVIEW = ''PENDING_REVIEW''"
| "statusName APPROVED = ''APPROVED''"
| "statusName REJECTED = ''REJECTED''"
| "statusName PROCESSING = ''PROCESSING''"
| "statusName SENT = ''SENT''"
| "statusName CONFIRMING = ''CONFIRMING''"
| "statusName CONFIRMED = ''CONFIRMED''"
| "statusName COMPLETED = ''COMPLETED''"
| "statusName PAID_MANUALLY = ''PAID_MANUALLY''"
| "statusName FAILED = ''FAILED''"

text \<open>\<open>markPaidManually\<close>: one transaction; the callback's exception is the result.\<close>

definition markPaidManually ::
  "db \<Rightarrow> date \<Rightarrow> string \<Rightarrow> string \<Rightarrow> string option \<Rightarrow> string \<Rightarrow> error + (WithdrawalRequest \<times> db)" where
  "markPaidManually s now requestId adminId proofUrl adminNotes =
     (case find (\<lambda>r. wr_id r = requestId) (withdrawalRequest s) of
        None \<Rightarrow> Inl (NotFoundException ''Withdrawal request not found'')
      | Some request \<Rightarrow>
          if wr_status request \<notin> set [PENDING_REVIEW, APPROVED, FAILED]
          then Inl (BadRequestException
                 (''Cannot mark as paid manually in status: '' @ statusName (wr_status request)))
          else
            (let updated = request\<lparr>wr_status := PAID_MANUALLY, wr_reviewedBy := Some adminId,
                   wr_reviewedAt := Some now, wr_manualProofUrl := proofUrl,
                   wr_manualProofNotes := Some adminNotes, wr_adminNotes := Some adminNotes\<rparr>;
                 s1 = s\<lparr>withdrawalRequest :=
                         updateWhere (\<lambda>r. wr_id r = requestId) (\<lambda>r. updated) (withdrawalRequest s)\<rparr>
             in case finalizeWithdrawal s1 (wr_userId request) (wr_assetId request)
                       (wr_chainId request) (wr_amount request) requestId of
                  Inl e \<Rightarrow> Inl e
                | Inr s2 \<Rightarrow> Inr (updated, s2)))"

section \<open>Payout worker (payout-processor: checkPayoutStatus)\<close>

text \<open>
  The receipt and the block height come from the chain's RPC endpoint and are inputs.
  The writes of the non-transactional branch stay when the job then throws to be
  retried, so the function returns the job's outcome together with the state. The
  confirmation counts are left out of the retry message.
\<close>

record Receipt =
  rcpt_status :: int
  rcpt_blockNumber :: int
  rcpt_gasUsed :: int

definition checkPayoutStatus ::
  "db \<Rightarrow> date \<Rightarrow> string \<Rightarrow> Receipt option \<Rightarrow> int \<Rightarrow> (error + unit) \<times> db" where
  "checkPayoutStatus s now payoutTxId receipt currentBlock =
     (case find (\<lambda>t. ptx_txHash t = Some payoutTxId) (payoutTx s) of
        None \<Rightarrow> (Inl (Error (''Payout tx not found: '' @ payoutTxId)), s)
      | Some ptx \<Rightarrow>
          if ptx_status ptx = PTX_CONFIRMED \<or> ptx_status ptx = PTX_FAILED then (Inr (), s)
          else
            (case find (\<lambda>r. wr_id r = ptx_withdrawalRequestId ptx) (withdrawalRequest s) of
               None \<Rightarrow> (Inl (Error ''required relation withdrawalRequest is missing''), s)
             | Some request \<Rightarrow>
                 (case find (\<lambda>c. ch_id c = wr_chainId request) (chain s) of
                    None \<Rightarrow> (Inl (Error ''required relation chain is missing''), s)
                  | Some ch \<Rightarrow>
                      (case receipt of
                         None \<Rightarrow> (Inl (Error ''Transaction not yet mined''), s)
                       | Some rc \<Rightarrow>
                           (let confirmations = currentBlock - rcpt_blockNumber rc + 1 in
                            if rcpt_status rc = 0 then
                              (Inr (),
                               s\<lparr>payoutTx := updateWhere (\<lambda>t. ptx_id t = ptx_id ptx)
                                    (\<lambda>t. t\<lparr>ptx_status := PTX_FAILED,
                                            ptx_confirmations := confirmations,
                                            ptx_errorMessage := Some ''Transaction reverted on-chain''\<rparr>)
                                    (payoutTx s),
                                  withdrawalRequest := updateWhere
                                    (\<lambda>r. wr_id r = ptx_withdrawalRequestId ptx)
                                    (\<lambda>r. r\<lparr>wr_status := FAILED\<rparr>) (withdrawalRequest s)\<rparr>)
                            else if confirmations \<ge> ch_confirmationsRequired ch then
                              (let s1 = s\<lparr>payoutTx := updateWhere (\<lambda>t. ptx_id t = ptx_id ptx)
                                    (\<lambda>t. t\<lparr>ptx_status := PTX_CONFIRMED,
                                            ptx_confirmations := confirmations,
                                            ptx_gasUsed := Some (rcpt_gasUsed rc),
                                            ptx_confirmedAt := Some now\<rparr>)
                                    (payoutTx s),
                                  withdrawalRequest := updateWhere
                                    (\<lambda>r. wr_id r = ptx_withdrawalRequestId ptx)
                                    (\<lambda>r. r\<lparr>wr_status := COMPLETED\<rparr>) (withdrawalRequest s)\<rparr>
                               in case updateBalanceCache s1
                                         (wr_userId request, wr_assetId request, wr_chainId request)
                                         (\<lambda>b. b\<lparr>withdrawalsPending :=
                                                  withdrawalsPending b - wr_amount request\<rparr>) of
                                    Inl e \<Rightarrow> (Inl e, s)
                                  | Inr s2 \<Rightarrow>
                                      (Inr (),
                                       s2\<lparr>notification := notification s2 @
                                          [\<lparr>n_userId = wr_userId request,
                                            n_type = ''withdrawal_completed'',
                                            n_title = ''Withdrawal Completed'',
                                            n_refId = ptx_withdrawalRequestId ptx\<rparr>]\<rparr>))
                            else
                              (Inl (Error ''Waiting for confirmations''),
                               s\<lparr>payoutTx := updateWhere (\<lambda>t. ptx_id t = ptx_id ptx)
                                    (\<lambda>t. t\<lparr>ptx_status := PTX_CONFIRMING,
                                            ptx_confirmations := confirmations\<rparr>)
                                    (payoutTx s),
                                  withdrawalRequest := updateWhere
                                    (\<lambda>r. wr_id r = ptx_withdrawalRequestId ptx)
                                    (\<lambda>r. r\<lparr>wr_status := CONFIRMING\<rparr>) (withdrawalRequest s)\<rparr>))))))"

section \<open>PoolsService.getEffectiveApr and StakesService (pools.service.ts, stakes.service.ts)\<close>

text \<open>
  \<open>findFirst\<close> with \<open>orderBy: effectiveFrom desc\<close> returns a matching row with the
  greatest \<open>effectiveFrom\<close>; among rows with equal \<open>effectiveFrom\<close> the store's order is
  not specified, and the model takes the first of them in table order. The clock is read
  once per call: every \<open>new Date()\<close> and \<open>Date.now()\<close> of one call is \<open>now\<close>.
  \<open>timeDiffSeconds\<close> is the number \<open>timeDiffMs / 1000\<close>; \<open>mul\<close> takes a number by its
  decimal notation, which for a span below \<open>10^15\<close> ms is the quotient itself.
\<close>

fun latestFirst :: "AprSchedule list \<Rightarrow> AprSchedule option" where
  "latestFirst [] = None"
| "latestFirst (x # xs) =
     (case latestFirst xs of
        None \<Rightarrow> Some x
      | Some y \<Rightarrow> if ap_effectiveFrom x < ap_effectiveFrom y then Some y else Some x)"

definition scheduleMatches :: "string \<Rightarrow> date \<Rightarrow> AprSchedule \<Rightarrow> bool" where
  "scheduleMatches poolId targetDate r =
     (ap_poolId r = poolId \<and> ap_effectiveFrom r \<le> targetDate \<and>
      (case ap_effectiveTo r of None \<Rightarrow> True | Some t \<Rightarrow> t \<ge> targetDate))"

definition PoolsService_getEffectiveApr :: "db \<Rightarrow> date \<Rightarrow> string \<Rightarrow> date option \<Rightarrow> decimal" where
  "PoolsService_getEffectiveApr s now poolId date =
     (let targetDate = (case date of None \<Rightarrow> now | Some d \<Rightarrow> d) in
      case latestFirst (filter (scheduleMatches poolId targetDate) (aprSchedule s)) of
        Some schedule \<Rightarrow> ap_apr schedule
      | None \<Rightarrow>
          (case find (\<lambda>p. pl_id p = poolId) (pool s) of
             None \<Rightarrow> 0
           | Some p \<Rightarrow> pl_currentApr p))"

definition calculateAccruedRewards :: "db \<Rightarrow> date \<Rightarrow> StakePosition \<Rightarrow> decimal" where
  "calculateAccruedRewards s now stake =
     (let timeDiffMs = now - sp_lastRewardCalculation stake;
          timeDiffSeconds = (of_int timeDiffMs :: rat) / 1000;
          apr = PoolsService_getEffectiveApr s now (sp_poolId stake) None;
          ratePerSecond = Decimal_div (Decimal_div (Decimal_div (Decimal_div
                            (Decimal_div apr 100) 365) 24) 60) 60;
          newRewards = Decimal_mul (Decimal_mul (sp_amount stake) ratePerSecond) timeDiffSeconds
      in Decimal_add (sp_rewardsAccrued stake) newRewards)"

datatype UnstakeResult =
    UnstakingStarted date
  | UnstakeCompleted decimal decimal decimal

definition unstake :: "db \<Rightarrow> date \<Rightarrow> string \<Rightarrow> string \<Rightarrow> error + (UnstakeResult \<times> db)" where
  "unstake s now userId stakeId =
     (case find (\<lambda>p. sp_id p = stakeId) (stakePosition s) of
        None \<Rightarrow> Inl (NotFoundException ''Stake position not found'')
      | Some stake \<Rightarrow>
      (case find (\<lambda>p. pl_id p = sp_poolId stake) (pool s) of
        None \<Rightarrow> Inl (Error ''required relation pool is missing'')
      | Some stake_pool \<Rightarrow>
      (case find (\<lambda>a. as_id a = pl_assetId stake_pool) (asset s) of
        None \<Rightarrow> Inl (Error ''required relation asset is missing'')
      | Some pool_asset \<Rightarrow>
          if sp_userId stake \<noteq> userId then Inl (ForbiddenException ''Access denied'')
          else if sp_status stake \<noteq> ACTIVE then Inl (BadRequestException ''Stake is not active'')
          else if (case sp_lockedUntil stake of None \<Rightarrow> False | Some l \<Rightarrow> l > now)
          then Inl (BadRequestException
                 (''Stake is locked until '' @ toISOString (the (sp_lockedUntil stake))))
          else if pl_cooldownHours stake_pool > 0 \<and> sp_cooldownEndsAt stake = None then
            (let cooldownEndsAt = now + pl_cooldownHours stake_pool * 60 * 60 * 1000 in
             Inr (UnstakingStarted cooldownEndsAt,
                  s\<lparr>stakePosition := updateWhere (\<lambda>p. sp_id p = stakeId)
                       (\<lambda>p. p\<lparr>sp_status := UNSTAKING, sp_unstakeRequestedAt := Some now,
                               sp_cooldownEndsAt := Some cooldownEndsAt\<rparr>) (stakePosition s)\<rparr>))
          else
            (let finalRewards = calculateAccruedRewards s now stake;
                 totalAmount = Decimal_add (sp_amount stake) finalRewards;
                 s1 = s\<lparr>stakePosition := updateWhere (\<lambda>p. sp_id p = stakeId)
                       (\<lambda>p. p\<lparr>sp_status := STAKE_COMPLETED, sp_unstakedAt := Some now,
                               sp_rewardsAccrued := finalRewards\<rparr>) (stakePosition s)\<rparr>;
                 s2 = s1\<lparr>pool := updateWhere (\<lambda>p. pl_id p = sp_poolId stake)
                       (\<lambda>p. p\<lparr>pl_totalStaked := pl_totalStaked p - sp_amount stake\<rparr>) (pool s1)\<rparr>
             in case unstakeToBalance s2 userId (pl_assetId stake_pool) (as_chainId pool_asset)
                       totalAmount stakeId of
                  Inl e \<Rightarrow> Inl e
                | Inr s3 \<Rightarrow> Inr (UnstakeCompleted totalAmount (sp_amount stake) finalRewards, s3)))))"

section \<open>Reward worker (reward-calculator: calculateRewards, processUnstakingPositions)\<close>

text \<open>
  The worker writes the ledger and the balance projection through the Prisma client
  directly, not through \<open>LedgerService\<close>. \<open>accrueStake\<close> is the body of the loop over the
  ACTIVE positions and \<open>completeCooldown\<close> the transaction of the loop over the
  UNSTAKING ones; an exception in either is caught by the loop, which goes on with the
  state as it was before the transaction. The counters the job returns for its log line
  are not modelled.
\<close>

definition getEffectiveApr :: "db \<Rightarrow> string \<Rightarrow> date \<Rightarrow> decimal" where
  "getEffectiveApr s poolId date =
     (case latestFirst (filter (scheduleMatches poolId date) (aprSchedule s)) of
        Some schedule \<Rightarrow> ap_apr schedule
      | None \<Rightarrow>
          (case find (\<lambda>p. pl_id p = poolId) (pool s) of
             None \<Rightarrow> 0
           | Some p \<Rightarrow> pl_currentApr p))"

definition newRewardsOf :: "db \<Rightarrow> date \<Rightarrow> StakePosition \<Rightarrow> decimal" where
  "newRewardsOf s now stake =
     (let timeDiffMs = now - sp_lastRewardCalculation stake;
          timeDiffSeconds = (of_int timeDiffMs :: rat) / 1000;
          effectiveApr = getEffectiveApr s (sp_poolId stake) now;
          ratePerSecond = Decimal_div (Decimal_div (Decimal_div (Decimal_div
                            (Decimal_div effectiveApr 100) 365) 24) 60) 60
      in Decimal_mul (Decimal_mul (sp_amount stake) ratePerSecond) timeDiffSeconds)"

definition accrueStake :: "db \<Rightarrow> date \<Rightarrow> StakePosition \<Rightarrow> db" where
  "accrueStake s now stake =
     (let timeDiffMs = now - sp_lastRewardCalculation stake;
          timeDiffSeconds = (of_int timeDiffMs :: rat) / 1000 in
      if timeDiffSeconds < 1 then s
      else
        (let newRewards = newRewardsOf s now stake in
         if newRewards > 0 then
           (case find (\<lambda>p. pl_id p = sp_poolId stake) (pool s) of
              None \<Rightarrow> s
            | Some stake_pool \<Rightarrow>
            (case find (\<lambda>a. as_id a = pl_assetId stake_pool) (asset s) of
              None \<Rightarrow> s
            | Some pool_asset \<Rightarrow>
                (let s1 = s\<lparr>stakePosition := updateWhere (\<lambda>p. sp_id p = sp_id stake)
                            (\<lambda>p. p\<lparr>sp_rewardsAccrued := sp_rewardsAccrued p + newRewards,
                                    sp_lastRewardCalculation := now\<rparr>) (stakePosition s)\<rparr>;
                     s2 = upsertBalanceCache s1
                            (sp_userId stake, pl_assetId stake_pool, as_chainId pool_asset)
                            \<lparr>available = 0, staked = sp_amount stake,
                             rewardsAccrued = newRewards, withdrawalsPending = 0\<rparr>
                            (\<lambda>b. b\<lparr>rewardsAccrued := rewardsAccrued b + newRewards\<rparr>)
                 in s2\<lparr>ledgerEntry := ledgerEntry s2 @
                        [\<lparr>le_userId = Some (sp_userId stake), le_assetId = pl_assetId stake_pool,
                          le_chainId = as_chainId pool_asset, le_entryType = REWARD_ACCRUED,
                          le_direction = CREDIT, le_amount = newRewards, le_balanceAfter = None,
                          le_referenceType = ''StakePosition'',
                          le_referenceId = sp_id stake\<rparr>]\<rparr>)))
         else s))"

definition completeCooldown :: "db \<Rightarrow> date \<Rightarrow> StakePosition \<Rightarrow> error + db" where
  "completeCooldown s now stake =
     (case find (\<lambda>p. pl_id p = sp_poolId stake) (pool s) of
        None \<Rightarrow> Inl (Error ''required relation pool is missing'')
      | Some stake_pool \<Rightarrow>
      (case find (\<lambda>a. as_id a = pl_assetId stake_pool) (asset s) of
        None \<Rightarrow> Inl (Error ''required relation asset is missing'')
      | Some pool_asset \<Rightarrow>
          (let finalRewards = newRewardsOf s now stake;
               totalRewards = Decimal_add (sp_rewardsAccrued stake) finalRewards;
               totalAmount = Decimal_add (sp_amount stake) totalRewards;
               s1 = s\<lparr>stakePosition := updateWhere (\<lambda>p. sp_id p = sp_id stake)
                      (\<lambda>p. p\<lparr>sp_status := STAKE_COMPLETED, sp_unstakedAt := Some now,
                              sp_rewardsAccrued := totalRewards\<rparr>) (stakePosition s)\<rparr>;
               s2 = s1\<lparr>pool := updateWhere (\<lambda>p. pl_id p = sp_poolId stake)
                      (\<lambda>p. p\<lparr>pl_totalStaked := pl_totalStaked p - sp_amount stake\<rparr>) (pool s1)\<rparr>
           in case updateBalanceCache s2
                     (sp_userId stake, pl_assetId stake_pool, as_chainId pool_asset)
                     (\<lambda>b. b\<lparr>available := available b + totalAmount,
                             staked := staked b - sp_amount stake,
                             rewardsAccrued := rewardsAccrued b - sp_rewardsAccrued stake\<rparr>) of
                Inl e \<Rightarrow> Inl e
              | Inr s3 \<Rightarrow>
                  Inr (s3\<lparr>ledgerEntry := ledgerEntry s3 @
                          [\<lparr>le_userId = Some (sp_userId stake), le_assetId = pl_assetId stake_pool,
                            le_chainId = as_chainId pool_asset, le_entryType = UNSTAKE_COMPLETED,
                            le_direction = CREDIT, le_amount = totalAmount, le_balanceAfter = None,
                            le_referenceType = ''StakePosition'',
                            le_referenceId = sp_id stake\<rparr>],
                         notification := notification s3 @
                          [\<lparr>n_userId = sp_userId stake, n_type = ''stake_completed'',
                            n_title = ''Unstake Complete'', n_refId = sp_id stake\<rparr>]\<rparr>))))"

definition processUnstakingPositions :: "db \<Rightarrow> date \<Rightarrow> db" where
  "processUnstakingPositions s now =
     (let completedCooldowns = filter (\<lambda>p. sp_status p = UNSTAKING \<and>
             (case sp_cooldownEndsAt p of None \<Rightarrow> False | Some c \<Rightarrow> c \<le> now)) (stakePosition s)
      in fold (\<lambda>stake st. case completeCooldown st now stake of Inl e \<Rightarrow> st | Inr st' \<Rightarrow> st')
           completedCooldowns s)"

definition calculateRewards :: "db \<Rightarrow> date \<Rightarrow> db" where
  "calculateRewards s now =
     (let activeStakes = filter (\<lambda>p. sp_status p = ACTIVE) (stakePosition s);
          s1 = fold (\<lambda>stake st. accrueStake st now stake) activeStakes s
      in processUnstakingPositions s1 now)"

section \<open>TwoFactorService and AuthService.login (two-factor.service.ts, auth.service.ts)\<close>

text \<open>
  What the libraries compute is a parameter of the model: \<open>argon2.verify\<close>, the AES-GCM
  \<open>decrypt\<close> of the encryption service (which throws on a malformed or forged
  ciphertext), otplib's \<open>authenticator.verify\<close> (configured with 6 digits, a 30 second
  step and a window of 1, and reading the clock), the SHA-256 \<open>hash\<close>, the JWT signature
  and the two configured lifetimes in seconds. The session identifier and the refresh
  token are the two \<open>uuidv4()\<close> values drawn by \<open>createAuthTokens\<close>; the device name
  parsed from the user agent is not modelled.
\<close>

record JwtPayload =
  jp_sub :: string
  jp_email :: string
  jp_role :: Role
  jp_sessionId :: string

record AuthEnv =
  argon2_verify :: "string \<Rightarrow> string \<Rightarrow> bool"
  decrypt :: "string \<Rightarrow> error + string"
  authenticator_verify :: "date \<Rightarrow> string \<Rightarrow> string \<Rightarrow> bool"
  sha256_hash :: "string \<Rightarrow> string"
  jwt_sign :: "JwtPayload \<Rightarrow> string"
  accessExpiresIn :: int
  refreshExpiresIn :: int

record LoginDto =
  dto_email :: string
  dto_password :: string
  dto_totpCode :: "string option"

record AuthTokens =
  accessToken :: string
  refreshToken :: string
  expiresIn :: int

definition verifyToken :: "AuthEnv \<Rightarrow> db \<Rightarrow> date \<Rightarrow> string \<Rightarrow> string \<Rightarrow> error + bool" where
  "verifyToken env s now userId token =
     (case find (\<lambda>t. tf_userId t = userId) (twoFactorSecret s) of
        None \<Rightarrow> Inr False
      | Some secretRow \<Rightarrow>
          if \<not> tf_isVerified secretRow then Inr False
          else
            (case decrypt env (tf_encryptedSecret secretRow) of
               Inl e \<Rightarrow> Inl e
             | Inr secret \<Rightarrow> Inr (authenticator_verify env now token secret)))"

definition verifyRecoveryCode :: "AuthEnv \<Rightarrow> db \<Rightarrow> date \<Rightarrow> string \<Rightarrow> string \<Rightarrow> bool \<times> db" where
  "verifyRecoveryCode env s now userId code =
     (let codeHash = sha256_hash env code in
      case find (\<lambda>r. rc_userId r = userId \<and> rc_codeHash r = codeHash \<and> \<not> rc_isUsed r)
             (recoveryCode s) of
        None \<Rightarrow> (False, s)
      | Some rcode \<Rightarrow>
          (True, s\<lparr>recoveryCode := updateWhere (\<lambda>r. rc_id r = rc_id rcode)
                      (\<lambda>r. r\<lparr>rc_isUsed := True, rc_usedAt := Some now\<rparr>) (recoveryCode s)\<rparr>))"

definition createSession ::
  "AuthEnv \<Rightarrow> db \<Rightarrow> date \<Rightarrow> string \<Rightarrow> string \<Rightarrow> string \<Rightarrow> string \<Rightarrow> string \<Rightarrow> db" where
  "createSession env s now sid userId rtoken ipAddress userAgent =
     (let expiresAt = now + refreshExpiresIn env * 1000;
          hashedRefreshToken = sha256_hash env rtoken
      in s\<lparr>session := session s @
            [\<lparr>se_id = sid, se_userId = userId, se_refreshToken = hashedRefreshToken,
              se_ipAddress = ipAddress, se_userAgent = userAgent, se_expiresAt = expiresAt\<rparr>]\<rparr>)"

definition createAuthTokens ::
  "AuthEnv \<Rightarrow> db \<Rightarrow> date \<Rightarrow> string \<Rightarrow> string \<Rightarrow> string \<Rightarrow> string \<Rightarrow> Role \<Rightarrow> string \<Rightarrow> string
     \<Rightarrow> AuthTokens \<times> db" where
  "createAuthTokens env s now sid rtoken userId email role ip userAgent =
     (let s1 = createSession env s now sid userId rtoken ip userAgent;
          payload = \<lparr>jp_sub = userId, jp_email = email, jp_role = role, jp_sessionId = sid\<rparr>
      in (\<lparr>accessToken = jwt_sign env payload, refreshToken = rtoken,
           expiresIn = accessExpiresIn env\<rparr>, s1))"

definition login ::
  "AuthEnv \<Rightarrow> db \<Rightarrow> date \<Rightarrow> string \<Rightarrow> string \<Rightarrow> LoginDto \<Rightarrow> string \<Rightarrow> string
     \<Rightarrow> error + (AuthTokens \<times> db)" where
  "login env s now sid rtoken dto ip userAgent =
     (case find (\<lambda>u. us_email u = toLowerCase (dto_email dto)) (user s) of
        None \<Rightarrow> Inl (UnauthorizedException ''Invalid credentials'')
      | Some u \<Rightarrow>
          if \<not> us_isActive u then Inl (ForbiddenException ''Account is disabled'')
          else if \<not> argon2_verify env (us_passwordHash u) (dto_password dto)
          then Inl (UnauthorizedException ''Invalid credentials'')
          else
            (case (if us_twoFactorEnabled u \<and>
                      (case find (\<lambda>t. tf_userId t = us_id u) (twoFactorSecret s) of
                         None \<Rightarrow> False | Some t \<Rightarrow> tf_isVerified t)
                   then
                     (if \<not> truthy_str (dto_totpCode dto)
                      then Inl (BadRequestException ''2FA code required'')
                      else
                        (case verifyToken env s now (us_id u) (the (dto_totpCode dto)) of
                           Inl e \<Rightarrow> Inl e
                         | Inr is2faValid \<Rightarrow>
                             if \<not> is2faValid then Inl (UnauthorizedException ''Invalid 2FA code'')
                             else Inr ()))
                   else Inr ()) of
               Inl e \<Rightarrow> Inl e
             | Inr _ \<Rightarrow>
                 if (us_role u = ADMIN \<or> us_role u = SUPER_ADMIN) \<and> \<not> us_twoFactorEnabled u
                 then Inl (ForbiddenException ''Admin accounts require 2FA to be enabled'')
                 else
                   (let s1 = s\<lparr>user := updateWhere (\<lambda>x. us_id x = us_id u)
                                  (\<lambda>x. x\<lparr>us_lastLoginAt := Some now\<rparr>) (user s)\<rparr>
                    in Inr (createAuthTokens env s1 now sid rtoken (us_id u) (us_email u)
                              (us_role u) ip userAgent))))"

section \<open>Deposit monitor (deposit-monitor: scanChainDeposits)\<close>

text \<open>
  The chain's JSON-RPC endpoint is a parameter: the block height, the Transfer logs of a
  contract over a block range and the receipt of a transaction, each of which may throw.
  \<open>newId\<close> gives the identifier of a created deposit row from the number of rows before
  it. \<open>scanChunks\<close> is the loop over the block range in steps of 2000, \<open>scanAsset\<close> the
  body of the loop over the assets with its \<open>try/catch\<close> (the rows written before a throw
  stay, the exception is logged and dropped), \<open>updatePending\<close> the body of the loop over
  the CONFIRMING deposits.
\<close>

record TransferEvent =
  ev_args :: "(string \<times> string \<times> int) option"
  ev_transactionHash :: string
  ev_index :: int
  ev_blockNumber :: int

record ChainRpc =
  getBlockNumber :: "error + int"
  queryFilter :: "string \<Rightarrow> int \<Rightarrow> int \<Rightarrow> error + TransferEvent list"
  getTransactionReceipt :: "string \<Rightarrow> error + Receipt option"

definition recordEvent ::
  "(nat \<Rightarrow> string) \<Rightarrow> Chain \<Rightarrow> Asset \<Rightarrow> DepositAddress list \<Rightarrow> int \<Rightarrow> TransferEvent \<Rightarrow> db \<Rightarrow> db" where
  "recordEvent newId ch a depositAddresses currentBlock event s =
     (case ev_args event of
        None \<Rightarrow> s
      | Some (fromAddr, toAddr, val) \<Rightarrow>
          (let toAddress = toLowerCase toAddr in
           case find (\<lambda>da. toLowerCase (da_address da) = toAddress) (rev depositAddresses) of
             None \<Rightarrow> s
           | Some da \<Rightarrow>
               (case find (\<lambda>d. dp_txHash d = ev_transactionHash event \<and>
                                dp_logIndex d = ev_index event \<and> dp_chainId d = ch_id ch)
                       (deposit s) of
                  Some existing \<Rightarrow> s
                | None \<Rightarrow>
                    s\<lparr>deposit := deposit s @
                       [\<lparr>dp_id = newId (length (deposit s)), dp_userId = da_userId da,
                         dp_assetId = as_id a, dp_chainId = ch_id ch,
                         dp_depositAddressId = da_id da,
                         dp_txHash = ev_transactionHash event, dp_logIndex = ev_index event,
                         dp_fromAddress = fromAddr,
                         dp_amount = of_int val / 10 ^ as_decimals a,
                         dp_status = DEP_CONFIRMING,
                         dp_confirmations = currentBlock - ev_blockNumber event,
                         dp_confirmedAt = None\<rparr>]\<rparr>)))"

function scanChunks ::
  "ChainRpc \<Rightarrow> (nat \<Rightarrow> string) \<Rightarrow> Chain \<Rightarrow> Asset \<Rightarrow> string \<Rightarrow> DepositAddress list \<Rightarrow> int \<Rightarrow> int \<Rightarrow> db
     \<Rightarrow> (error + unit) \<times> db" where
  "scanChunks rpc newId ch a contractAddress depositAddresses currentBlock block s =
     (if block \<le> currentBlock then
        (let toBlock = min (block + 2000 - 1) currentBlock in
         case queryFilter rpc contractAddress block toBlock of
           Inl e \<Rightarrow> (Inl e, s)
         | Inr events \<Rightarrow>
             scanChunks rpc newId ch a contractAddress depositAddresses currentBlock (block + 2000)
               (fold (recordEvent newId ch a depositAddresses currentBlock) events s))
      else (Inr (), s))"
  by pat_completeness auto
termination
  by (relation "measure (\<lambda>(rpc, newId, ch, a, contractAddress, depositAddresses, currentBlock,
        block, s). nat (currentBlock + 1 - block))") auto

declare scanChunks.simps [simp del]

definition scanAsset ::
  "ChainRpc \<Rightarrow> (nat \<Rightarrow> string) \<Rightarrow> Chain \<Rightarrow> DepositAddress list \<Rightarrow> int \<Rightarrow> int \<Rightarrow> Asset \<Rightarrow> db \<Rightarrow> db" where
  "scanAsset rpc newId ch depositAddresses fromBlock currentBlock a s =
     (if as_isNative a \<or> \<not> truthy_str (as_contractAddress a) then s
      else snd (scanChunks rpc newId ch a (the (as_contractAddress a)) depositAddresses
                  currentBlock fromBlock s))"

definition updatePending :: "ChainRpc \<Rightarrow> Chain \<Rightarrow> int \<Rightarrow> date \<Rightarrow> Deposit \<Rightarrow> db \<Rightarrow> db" where
  "updatePending rpc ch currentBlock now dep s =
     (case getTransactionReceipt rpc (dp_txHash dep) of
        Inl e \<Rightarrow> s
      | Inr None \<Rightarrow> s
      | Inr (Some receipt) \<Rightarrow>
          (let confirmations = currentBlock - rcpt_blockNumber receipt + 1 in
           if confirmations \<ge> ch_confirmationsRequired ch then
             (let s1 = s\<lparr>deposit := updateWhere (\<lambda>d. dp_id d = dp_id dep)
                           (\<lambda>d. d\<lparr>dp_confirmations := confirmations, dp_status := DEP_CONFIRMED,
                                   dp_confirmedAt := Some now\<rparr>) (deposit s)\<rparr>;
                  s2 = s1\<lparr>ledgerEntry := ledgerEntry s1 @
                           [\<lparr>le_userId = Some (dp_userId dep), le_assetId = dp_assetId dep,
                             le_chainId = dp_chainId dep, le_entryType = DEPOSIT_CONFIRMED,
                             le_direction = CREDIT, le_amount = dp_amount dep,
                             le_balanceAfter = None, le_referenceType = ''Deposit'',
                             le_referenceId = dp_id dep\<rparr>]\<rparr>
              in upsertBalanceCache s2 (dp_userId dep, dp_assetId dep, dp_chainId dep)
                   \<lparr>available = dp_amount dep, staked = 0, rewardsAccrued = 0,
                    withdrawalsPending = 0\<rparr>
                   (\<lambda>b. b\<lparr>available := available b + dp_amount dep\<rparr>))
           else s\<lparr>deposit := updateWhere (\<lambda>d. dp_id d = dp_id dep)
                     (\<lambda>d. d\<lparr>dp_confirmations := confirmations\<rparr>) (deposit s)\<rparr>))"

definition lastScannedKey :: "Chain \<Rightarrow> string" where
  "lastScannedKey ch = ''lastScannedBlock_'' @ ch_id ch"

text \<open>
  The stored value is read as \<open>value.blockNumber || currentBlock - 1000\<close>: a stored block
  number 0 is falsy and gives the default, as a missing row does.
\<close>

definition lastScannedBlockOf :: "db \<Rightarrow> Chain \<Rightarrow> int \<Rightarrow> int" where
  "lastScannedBlockOf s ch currentBlock =
     (case systemConfig s (lastScannedKey ch) of
        None \<Rightarrow> currentBlock - 1000
      | Some blockNumber \<Rightarrow> if blockNumber = 0 then currentBlock - 1000 else blockNumber)"

definition fromBlockOf :: "db \<Rightarrow> Chain \<Rightarrow> int \<Rightarrow> int" where
  "fromBlockOf s ch currentBlock = max (lastScannedBlockOf s ch currentBlock + 1) (currentBlock - 10000)"

definition scanChainDeposits ::
  "ChainRpc \<Rightarrow> (nat \<Rightarrow> string) \<Rightarrow> date \<Rightarrow> db \<Rightarrow> Chain \<Rightarrow> (error + unit) \<times> db" where
  "scanChainDeposits rpc newId now s ch =
     (case getBlockNumber rpc of
        Inl e \<Rightarrow> (Inl e, s)
      | Inr currentBlock \<Rightarrow>
          (let fromBlock = fromBlockOf s ch currentBlock in
           if fromBlock > currentBlock then (Inr (), s)
           else
             (let depositAddresses = filter (\<lambda>da. da_chainId da = ch_id ch \<and> da_isActive da)
                                       (depositAddress s);
                  assets = filter (\<lambda>a. as_chainId a = ch_id ch \<and> as_isActive a) (asset s);
                  s1 = fold (scanAsset rpc newId ch depositAddresses fromBlock currentBlock) assets s;
                  s2 = s1\<lparr>systemConfig := (systemConfig s1)(lastScannedKey ch \<mapsto> currentBlock)\<rparr>;
                  pendingDeposits = filter (\<lambda>d. dp_chainId d = ch_id ch \<and>
                                              dp_status d = DEP_CONFIRMING) (deposit s2);
                  s3 = fold (updatePending rpc ch currentBlock now) pendingDeposits s2
              in (Inr (), s3))))"

section \<open>Example data\<close>

text \<open>
  The concrete rows and states at which the theorems below are evaluated: one user
  \<open>u1\<close> with one asset on one chain, a withdrawal request \<open>w1\<close> of amount 1 reserved
  out of a deposit of 10, a stake \<open>s1\<close> of 100 with 5 of accrued rewards in a pool at
  10 percent, a two-factor secret with one unused recovery code, and a chain endpoint
  whose log queries all time out.
\<close>

definition ex_credit10 :: LedgerEntry where
  "ex_credit10 = \<lparr>le_userId = Some ''u1'', le_assetId = ''eth'', le_chainId = ''c1'',
     le_entryType = DEPOSIT_CONFIRMED, le_direction = CREDIT, le_amount = 10,
     le_balanceAfter = Some 10, le_referenceType = ''Deposit'', le_referenceId = ''d1''\<rparr>"

definition ex_debit :: "decimal \<Rightarrow> CreateLedgerEntryParams" where
  "ex_debit x = \<lparr>p_userId = Some ''u1'', p_assetId = ''eth'', p_chainId = ''c1'',
     p_entryType = WITHDRAWAL_REQUESTED, p_direction = DEBIT, p_amount = x,
     p_referenceType = ''WithdrawalRequest'', p_referenceId = ''w1''\<rparr>"

definition ex_asset :: Asset where
  "ex_asset = \<lparr>as_id = ''eth'', as_chainId = ''c1'', as_decimals = 18,
     as_contractAddress = Some ''0xc0'', as_isNative = False, as_isActive = True,
     as_priceUsd = 2000\<rparr>"

definition ex_chain :: Chain where
  "ex_chain = \<lparr>ch_id = ''c1'', ch_confirmationsRequired = 12, ch_isActive = True\<rparr>"

definition ex_user :: User where
  "ex_user = \<lparr>us_id = ''u1'', us_email = ''a@b.io'', us_passwordHash = ''h1'', us_role = USER,
     us_emailVerified = False, us_twoFactorEnabled = True, us_isActive = True,
     us_createdAt = 0, us_dailyWithdrawalLimit = 10000, us_lastLoginAt = None\<rparr>"

definition ex_key :: balkey where
  "ex_key = (''u1'', ''eth'', ''c1'')"

definition ex_request :: "WithdrawalStatus \<Rightarrow> WithdrawalRequest" where
  "ex_request st = \<lparr>wr_id = ''w1'', wr_userId = ''u1'', wr_assetId = ''eth'', wr_chainId = ''c1'',
     wr_amount = 1, wr_fee = 1 / 1000, wr_netAmount = 999 / 1000,
     wr_destinationAddress = ''0xd1'', wr_status = st, wr_userNotes = None,
     wr_adminNotes = None, wr_reviewedBy = None, wr_reviewedAt = None,
     wr_manualProofUrl = None, wr_manualProofNotes = None, wr_idempotencyKey = ''k1'',
     wr_fraudScore = 30, wr_fraudIndicators = [], wr_createdAt = 0\<rparr>"

definition ex_ptx :: PayoutTx where
  "ex_ptx = \<lparr>ptx_id = ''t1'', ptx_withdrawalRequestId = ''w1'', ptx_txHash = Some ''0xT'',
     ptx_status = PTX_SENT, ptx_confirmations = 0, ptx_gasUsed = None,
     ptx_errorMessage = None, ptx_confirmedAt = None\<rparr>"

definition ex_wdb :: "WithdrawalStatus \<Rightarrow> db" where
  "ex_wdb st = emptyDb\<lparr>
     ledgerEntry := [ex_credit10, mkEntry (ex_debit 1) (Some 9)],
     balanceCache := [ex_key \<mapsto> \<lparr>available = 9, staked = 0, rewardsAccrued = 0,
                                 withdrawalsPending = 1\<rparr>],
     withdrawalRequest := [ex_request st], payoutTx := [ex_ptx],
     chain := [ex_chain], asset := [ex_asset], user := [ex_user]\<rparr>"

definition ex_receipt :: Receipt where
  "ex_receipt = \<lparr>rcpt_status = 1, rcpt_blockNumber = 100, rcpt_gasUsed = 21000\<rparr>"

definition ex_fdb :: db where
  "ex_fdb = emptyDb\<lparr>
     ledgerEntry := [ex_credit10],
     balanceCache := [ex_key \<mapsto> \<lparr>available = 10, staked = 0, rewardsAccrued = 0,
                                 withdrawalsPending = 0\<rparr>],
     asset := [ex_asset], user := [ex_user]\<rparr>"

definition ex_svc :: FraudService where
  "ex_svc = newFraudService None None None None"

definition ex_params :: CreateRequestParams where
  "ex_params = \<lparr>cr_assetId = ''eth'', cr_chainId = ''c1'', cr_amount = 1,
     cr_destinationAddress = ''0xD1'', cr_userNotes = None, cr_idempotencyKey = ''k9''\<rparr>"

definition ex_fdb_whitelisted :: db where
  "ex_fdb_whitelisted = ex_fdb\<lparr>addressWhitelist :=
     [\<lparr>aw_userId = ''u1'', aw_chainId = ''c1'', aw_address = ''0xd1'', aw_label = None,
       aw_cooldownEndsAt = 172800000\<rparr>]\<rparr>"

definition ex_stake :: "StakeStatus \<Rightarrow> StakePosition" where
  "ex_stake st = \<lparr>sp_id = ''s1'', sp_userId = ''u1'', sp_poolId = ''p1'', sp_amount = 100,
     sp_rewardsAccrued = 5, sp_rewardsClaimed = 0, sp_lastRewardCalculation = 0,
     sp_status = st, sp_lockedUntil = None, sp_cooldownEndsAt = Some 1000,
     sp_unstakeRequestedAt = None, sp_unstakedAt = None\<rparr>"

definition ex_pool :: Pool where
  "ex_pool = \<lparr>pl_id = ''p1'', pl_assetId = ''eth'', pl_currentApr = 10, pl_totalStaked = 100,
     pl_cooldownHours = 24\<rparr>"

definition ex_sdb :: "StakeStatus \<Rightarrow> db" where
  "ex_sdb st = emptyDb\<lparr>
     balanceCache := [ex_key \<mapsto> \<lparr>available = 0, staked = 100, rewardsAccrued = 5,
                                 withdrawalsPending = 0\<rparr>],
     asset := [ex_asset], stakePosition := [ex_stake st], pool := [ex_pool]\<rparr>"

definition ex_flexdb :: db where
  "ex_flexdb = (ex_sdb ACTIVE)\<lparr>
     stakePosition := [(ex_stake ACTIVE)\<lparr>sp_cooldownEndsAt := None\<rparr>],
     pool := [ex_pool\<lparr>pl_cooldownHours := 0\<rparr>]\<rparr>"

definition ex_schedules :: "AprSchedule list" where
  "ex_schedules =
     [\<lparr>ap_poolId = ''p1'', ap_apr = 8, ap_effectiveFrom = 0, ap_effectiveTo = None\<rparr>,
      \<lparr>ap_poolId = ''p1'', ap_apr = 12, ap_effectiveFrom = 100, ap_effectiveTo = Some 200\<rparr>,
      \<lparr>ap_poolId = ''p1'', ap_apr = 9, ap_effectiveFrom = 50, ap_effectiveTo = None\<rparr>]"

definition year_ms :: date where
  "year_ms = 31536000000"

definition ex_env :: AuthEnv where
  "ex_env = \<lparr>argon2_verify = (\<lambda>h p. h = ''h1'' \<and> p = ''pw1''),
     decrypt = (\<lambda>c. if c = ''enc:s3cr3t'' then Inr ''s3cr3t''
                     else Inl (Error ''Invalid ciphertext format'')),
     authenticator_verify = (\<lambda>now token secret. secret = ''s3cr3t'' \<and> token = ''123456''),
     sha256_hash = (\<lambda>v. ''sha:'' @ v),
     jwt_sign = (\<lambda>p. ''jwt:'' @ jp_sessionId p),
     accessExpiresIn = 900, refreshExpiresIn = 604800\<rparr>"

definition ex_secret :: TwoFactorSecret where
  "ex_secret = \<lparr>tf_userId = ''u1'', tf_encryptedSecret = ''enc:s3cr3t'', tf_isVerified = True\<rparr>"

definition ex_adb :: db where
  "ex_adb = emptyDb\<lparr>user := [ex_user], twoFactorSecret := [ex_secret],
     recoveryCode := [\<lparr>rc_id = ''r1'', rc_userId = ''u1'', rc_codeHash = ''sha:ABCD-EFGH'',
                       rc_isUsed = False, rc_usedAt = None\<rparr>]\<rparr>"

definition ex_dto :: "string option \<Rightarrow> LoginDto" where
  "ex_dto code = \<lparr>dto_email = ''A@b.io'', dto_password = ''pw1'', dto_totpCode = code\<rparr>"

definition ex_rpc :: ChainRpc where
  "ex_rpc = \<lparr>getBlockNumber = Inr 5000,
     queryFilter = (\<lambda>c f t. Inl (Error ''rpc timeout'')),
     getTransactionReceipt = (\<lambda>h. Inr None)\<rparr>"

definition ex_newId :: "nat \<Rightarrow> string" where
  "ex_newId n = replicate (Suc n) (CHR ''d'')"

definition ex_scandb :: db where
  "ex_scandb = emptyDb\<lparr>asset := [ex_asset], chain := [ex_chain],
     systemConfig := [lastScannedKey ex_chain \<mapsto> 4000]\<rparr>"

section \<open>Rounding to 20 significant digits\<close>

lemma decDigits_bounds:
  "0 < n \<Longrightarrow> 10 ^ (decDigits n - 1) \<le> n \<and> n < 10 ^ decDigits n"
proof (induction n rule: decDigits.induct)
  case (1 n)
  show ?case
  proof (cases "n div 10 \<le> 0")
    case True
    with "1.prems" have "n < 10" by simp
    moreover from True have "decDigits (n div 10) = 0" by (simp add: decDigits.simps)
    ultimately show ?thesis using "1.prems" by (subst (1 2) decDigits.simps) simp
  next
    case False
    then have pos: "0 < n div 10" by simp
    from "1.prems" have np: "\<not> n \<le> 0" by simp
    from "1.IH"[OF np pos] have lo: "10 ^ (decDigits (n div 10) - 1) \<le> n div 10"
      and hi: "n div 10 < 10 ^ decDigits (n div 10)" by simp_all
    from pos have dpos: "0 < decDigits (n div 10)"
      by (subst decDigits.simps) simp
    have d: "decDigits n = Suc (decDigits (n div 10))"
      using np by (subst decDigits.simps) simp
    have "10 * 10 ^ (decDigits (n div 10) - 1) \<le> 10 * (n div 10)" using lo by simp
    also have "\<dots> \<le> n" by simp
    finally have lo': "(10::int) ^ decDigits (n div 10) \<le> n"
      using dpos by (cases "decDigits (n div 10)") simp_all
    from hi have "n div 10 + 1 \<le> 10 ^ decDigits (n div 10)" by simp
    then have "10 * (n div 10) + 10 \<le> 10 * 10 ^ decDigits (n div 10)" by simp
    moreover have "n < 10 * (n div 10) + 10" by presburger
    ultimately have hi': "n < 10 * 10 ^ decDigits (n div 10)" by simp
    from lo' hi' d show ?thesis by simp
  qed
qed

lemma decDigits_pos: "0 < n \<Longrightarrow> 0 < decDigits n"
  by (subst decDigits.simps) simp

lemma pow10_powi: "pow10 e = 10 powi e"
  by (simp add: pow10_def power_int_def field_simps)

lemma pow10_pos: "0 < pow10 e"
  by (simp add: pow10_def)

lemma pow10_shift: "pow10 (e - 19) = pow10 e / 10 ^ 19"
  by (simp add: pow10_powi power_int_diff)

lemma pow10_succ: "pow10 (e + 1) = 10 * pow10 e"
  by (simp add: pow10_powi power_int_add)

text \<open>
  \<open>decExponent\<close> is the decimal exponent: a non-zero \<open>x\<close> lies between
  \<open>10 ^ decExponent x\<close> and the next power of ten.
\<close>

lemma decExponent_bounds:
  assumes "x \<noteq> 0"
  shows "pow10 (decExponent x) \<le> \<bar>x\<bar> \<and> \<bar>x\<bar> < pow10 (decExponent x + 1)"
proof (cases "1 \<le> \<bar>x\<bar>")
  case True
  define n where "n = \<lfloor>\<bar>x\<bar>\<rfloor>"
  from True have npos: "0 < n" unfolding n_def by linarith
  from decDigits_bounds[OF npos] have lo: "10 ^ (decDigits n - 1) \<le> n"
    and hi: "n < 10 ^ decDigits n" by simp_all
  from decDigits_pos[OF npos] have dpos: "0 < decDigits n" .
  have e: "decExponent x = int (decDigits n) - 1"
    using True by (simp add: decExponent_def n_def)
  have p1: "pow10 (decExponent x) = 10 ^ (decDigits n - 1)"
    using dpos by (simp add: e pow10_def nat_diff_distrib')
  have p2: "pow10 (decExponent x + 1) = 10 ^ decDigits n"
    by (simp add: e pow10_def)
  have "(of_int n :: rat) \<le> \<bar>x\<bar>" unfolding n_def by simp
  moreover from lo have "(10::rat) ^ (decDigits n - 1) \<le> of_int n"
    by (metis of_int_le_iff of_int_numeral of_int_power)
  ultimately have A: "pow10 (decExponent x) \<le> \<bar>x\<bar>" unfolding p1 by linarith
  from hi have "n + 1 \<le> 10 ^ decDigits n" by simp
  then have "(of_int (n + 1) :: rat) \<le> 10 ^ decDigits n"
    by (metis of_int_le_iff of_int_numeral of_int_power)
  moreover have "\<bar>x\<bar> < of_int (n + 1)" unfolding n_def by linarith
  ultimately have B: "\<bar>x\<bar> < pow10 (decExponent x + 1)" by (simp add: p2)
  from A B show ?thesis ..
next
  case False
  then have lt1: "\<bar>x\<bar> < 1" by simp
  from assms have xpos: "0 < \<bar>x\<bar>" by simp
  define m where "m = \<lceil>1 / \<bar>x\<bar>\<rceil> - 1"
  from lt1 xpos have "1 < 1 / \<bar>x\<bar>" by (simp add: field_simps)
  then have mpos: "0 < m" unfolding m_def by linarith
  have m_lt: "of_int m < 1 / \<bar>x\<bar>" unfolding m_def by linarith
  have m_ge: "1 / \<bar>x\<bar> \<le> of_int (m + 1)" unfolding m_def by simp
  from decDigits_bounds[OF mpos] have lo: "10 ^ (decDigits m - 1) \<le> m"
    and hi: "m < 10 ^ decDigits m" by simp_all
  from decDigits_pos[OF mpos] have dpos: "0 < decDigits m" .
  have e: "decExponent x = - int (decDigits m)"
    using False by (simp add: decExponent_def m_def)
  have p1: "pow10 (decExponent x) = 1 / 10 ^ decDigits m"
    using dpos by (simp add: e pow10_def)
  have p2: "pow10 (decExponent x + 1) = 1 / 10 ^ (decDigits m - 1)"
  proof (cases "decDigits m = 1")
    case True
    then show ?thesis by (simp add: e pow10_def)
  next
    case False
    with dpos have "1 < decDigits m" by simp
    then show ?thesis by (simp add: e pow10_def nat_diff_distrib')
  qed
  from hi have "m + 1 \<le> 10 ^ decDigits m" by simp
  then have "(of_int (m + 1) :: rat) \<le> 10 ^ decDigits m"
    by (metis of_int_le_iff of_int_numeral of_int_power)
  with m_ge have "1 / \<bar>x\<bar> \<le> 10 ^ decDigits m" by linarith
  with xpos have A: "1 / 10 ^ decDigits m \<le> \<bar>x\<bar>" by (simp add: field_simps)
  from lo have "(10::rat) ^ (decDigits m - 1) \<le> of_int m"
    by (metis of_int_le_iff of_int_numeral of_int_power)
  with m_lt have "(10::rat) ^ (decDigits m - 1) < 1 / \<bar>x\<bar>" by linarith
  with xpos have B: "\<bar>x\<bar> < 1 / 10 ^ (decDigits m - 1)" by (simp add: field_simps)
  from A B show ?thesis by (simp add: p1 p2)
qed

text \<open>One rounding moves a value by at most half a unit of its 20th digit.\<close>

lemma finalise_error: "\<bar>finalise x - x\<bar> \<le> 5 / 10 ^ 20 * \<bar>x\<bar>"
proof (cases "x = 0")
  case True
  then show ?thesis by (simp add: finalise_def)
next
  case False
  define q where "q = pow10 (decExponent x - 19)"
  define y where "y = \<bar>x\<bar> / q"
  have qpos: "0 < q" unfolding q_def by (rule pow10_pos)
  have fin: "finalise x = sgn x * of_int \<lfloor>y + 1 / 2\<rfloor> * q"
    using False by (simp add: finalise_def q_def y_def Let_def)
  have x_eq: "x = sgn x * (y * q)"
    using qpos by (simp add: y_def sgn_mult_abs)
  have "finalise x - x = sgn x * ((of_int \<lfloor>y + 1 / 2\<rfloor> - y) * q)"
    by (subst (2) x_eq, subst fin) (simp add: algebra_simps)
  then have "\<bar>finalise x - x\<bar> = \<bar>of_int \<lfloor>y + 1 / 2\<rfloor> - y\<bar> * q"
    using False qpos by (simp add: abs_mult abs_sgn_eq)
  moreover have "\<bar>of_int \<lfloor>y + 1 / 2\<rfloor> - y\<bar> \<le> 1 / 2" by linarith
  ultimately have "\<bar>finalise x - x\<bar> \<le> 1 / 2 * q"
    using qpos by (simp add: mult_right_mono)
  also have "\<dots> = 5 / 10 ^ 20 * pow10 (decExponent x)"
    by (simp add: q_def pow10_shift)
  also have "\<dots> \<le> 5 / 10 ^ 20 * \<bar>x\<bar>"
    using decExponent_bounds[OF False] by simp
  finally show ?thesis .
qed

text \<open>
  How the error grows along a chain of operations: when \<open>x\<close> is within the relative
  error \<open>(1 + u)^n - 1\<close> of \<open>y\<close>, with \<open>u = 5 / 10^20\<close>, the rounded product of \<open>x\<close> with
  an exact factor is within \<open>(1 + u)^(n + 1) - 1\<close> of the exact product.
\<close>

lemma finalise_scaled_error:
  assumes "\<bar>x - y\<bar> \<le> ((1 + 5 / 10 ^ 20) ^ n - 1) * \<bar>y\<bar>"
  shows "\<bar>finalise (k * x) - k * y\<bar> \<le> ((1 + 5 / 10 ^ 20) ^ Suc n - 1) * \<bar>k * y\<bar>"
proof -
  define u :: rat where "u = 5 / 10 ^ 20"
  define b where "b = (1 + u) ^ n - 1"
  have upos: "0 \<le> u" by (simp add: u_def)
  have bpos: "0 \<le> b" unfolding b_def using upos by simp
  from assms have xy: "\<bar>x - y\<bar> \<le> b * \<bar>y\<bar>" by (simp add: b_def u_def)
  have d1: "\<bar>k * x - k * y\<bar> \<le> b * \<bar>k * y\<bar>"
  proof -
    have "\<bar>k * x - k * y\<bar> = \<bar>k\<bar> * \<bar>x - y\<bar>"
      by (simp add: abs_mult right_diff_distrib[symmetric])
    also have "\<dots> \<le> \<bar>k\<bar> * (b * \<bar>y\<bar>)" using xy by (simp add: mult_left_mono)
    finally show ?thesis by (simp add: abs_mult mult_ac)
  qed
  have "\<bar>k * x\<bar> \<le> \<bar>k * y\<bar> + \<bar>k * x - k * y\<bar>" by linarith
  with d1 have d2: "\<bar>k * x\<bar> \<le> (1 + b) * \<bar>k * y\<bar>" by (simp add: algebra_simps)
  have "\<bar>finalise (k * x) - k * x\<bar> \<le> u * \<bar>k * x\<bar>"
    using finalise_error[of "k * x"] by (simp add: u_def)
  also have "\<dots> \<le> u * ((1 + b) * \<bar>k * y\<bar>)" using d2 upos by (rule mult_left_mono)
  finally have d3: "\<bar>finalise (k * x) - k * x\<bar> \<le> u * ((1 + b) * \<bar>k * y\<bar>)" .
  have "\<bar>finalise (k * x) - k * y\<bar> \<le> \<bar>finalise (k * x) - k * x\<bar> + \<bar>k * x - k * y\<bar>"
    by linarith
  also have "\<dots> \<le> u * ((1 + b) * \<bar>k * y\<bar>) + b * \<bar>k * y\<bar>" using d3 d1 by linarith
  also have "\<dots> = ((1 + u) ^ Suc n - 1) * \<bar>k * y\<bar>"
    by (simp add: b_def algebra_simps)
  finally show ?thesis by (simp add: u_def)
qed

lemma Decimal_div_error:
  assumes "\<bar>x - y\<bar> \<le> ((1 + 5 / 10 ^ 20) ^ n - 1) * \<bar>y\<bar>"
  shows "\<bar>Decimal_div x c - y / c\<bar> \<le> ((1 + 5 / 10 ^ 20) ^ Suc n - 1) * \<bar>y / c\<bar>"
  using finalise_scaled_error[OF assms, of "1 / c"] by (simp add: Decimal_div_def)

lemma Decimal_mul_error_right:
  assumes "\<bar>x - y\<bar> \<le> ((1 + 5 / 10 ^ 20) ^ n - 1) * \<bar>y\<bar>"
  shows "\<bar>Decimal_mul k x - k * y\<bar> \<le> ((1 + 5 / 10 ^ 20) ^ Suc n - 1) * \<bar>k * y\<bar>"
  using finalise_scaled_error[OF assms, of k] by (simp add: Decimal_mul_def)

lemma Decimal_mul_error_left:
  assumes "\<bar>x - y\<bar> \<le> ((1 + 5 / 10 ^ 20) ^ n - 1) * \<bar>y\<bar>"
  shows "\<bar>Decimal_mul x k - y * k\<bar> \<le> ((1 + 5 / 10 ^ 20) ^ Suc n - 1) * \<bar>y * k\<bar>"
  using finalise_scaled_error[OF assms, of k] by (simp add: Decimal_mul_def mult.commute)

text \<open>
  The operation chain of the reward formula: five rounded divisions and two rounded
  multiplications stay within the relative error \<open>(1 + 5 / 10^20)^7 - 1\<close>, which is below
  \<open>4 / 10^19\<close>, of the exact product.
\<close>

lemma reward_chain_error:
  "\<bar>Decimal_mul (Decimal_mul amount (Decimal_div (Decimal_div (Decimal_div (Decimal_div
        (Decimal_div apr 100) 365) 24) 60) 60)) dt
     - amount * (apr / 100 / 365 / 86400) * dt\<bar>
   \<le> 4 / 10 ^ 19 * \<bar>amount * (apr / 100 / 365 / 86400) * dt\<bar>"
proof -
  let ?B = "\<lambda>n. (1 + 5 / 10 ^ 20 :: rat) ^ n - 1"
  have "\<bar>apr - apr\<bar> \<le> ?B 0 * \<bar>apr\<bar>" by simp
  note Decimal_div_error[OF this, of 100]
  note Decimal_div_error[OF this, of 365]
  note Decimal_div_error[OF this, of 24]
  note Decimal_div_error[OF this, of 60]
  note Decimal_div_error[OF this, of 60]
  note Decimal_mul_error_right[OF this, of amount]
  note step = Decimal_mul_error_left[OF this, of dt]
  have ex: "amount * (apr / 100 / 365 / 24 / 60 / 60) * dt = amount * (apr / 100 / 365 / 86400) * dt"
    by simp
  have val: "?B (Suc (Suc (Suc (Suc (Suc (Suc (Suc 0))))))) \<le> 4 / 10 ^ 19"
    by (simp add: power_Suc)
  have "0 \<le> \<bar>amount * (apr / 100 / 365 / 86400) * dt\<bar>" by simp
  from step[unfolded ex] mult_right_mono[OF val this]
  show ?thesis by linarith
qed

lemma decimal_example_values:
  "Decimal_sub 0 0 = 0"
  "Decimal_sub 10 0 = 10"
  "Decimal_add 0 115 = 115"
  "Decimal_add 5 10 = 15"
  "Decimal_add 100 15 = 115"
  "Decimal_mul 1 2000 = 2000"
  "Decimal_add 0 2000 = 2000"
  "Decimal_mul 1 (1 / 1000) = 1 / 1000"
  "Decimal_sub 1 (1 / 1000) = 999 / 1000"
  by code_simp+

lemma year_reward_value:
  "Decimal_mul (Decimal_mul 100 (Decimal_div (Decimal_div (Decimal_div (Decimal_div
      (Decimal_div 10 100) 365) 24) 60) 60)) 31536000 = 10"
  by code_simp

lemma second_reward_value:
  "Decimal_mul (Decimal_mul 100 (Decimal_div (Decimal_div (Decimal_div (Decimal_div
      (Decimal_div 10 100) 365) 24) 60) 60)) 1 = 31709791983764586505 / 10 ^ 26"
  by code_simp

text \<open>The date format at the epoch, around it, on leap days and outside the four-digit years.\<close>

lemma toISOString_examples:
  "toISOString 0 = ''1970-01-01T00:00:00.000Z''"
  "toISOString 1700000000123 = ''2023-11-14T22:13:20.123Z''"
  "toISOString (- 1) = ''1969-12-31T23:59:59.999Z''"
  "toISOString 1709210096789 = ''2024-02-29T12:34:56.789Z''"
  "toISOString 951782400000 = ''2000-02-29T00:00:00.000Z''"
  "toISOString 4107542400000 = ''2100-03-01T00:00:00.000Z''"
  "toISOString 253402300800000 = ''+010000-01-01T00:00:00.000Z''"
  "toISOString (- 62198755200000) = ''-000001-01-01T00:00:00.000Z''"
  "toISOString (- 62167219200000) = ''0000-01-01T00:00:00.000Z''"
  by code_simp+

section \<open>Ledger: a user's debit through createEntry\<close>

lemma createEntry_user_debit_throws:
  assumes "truthy_str (p_userId p)" and "p_direction p = DEBIT" and "0 < p_amount p"
  shows "createEntry L p = Inl (TypeError ''currentBalance.subtract is not a function'')"
  using assms by (simp add: createEntry_def Let_def)

lemma createEntry_never_insufficient_balance:
  "createEntry L p \<noteq> Inl (BadRequestException ''Insufficient balance for debit'')"
  by (simp add: createEntry_def Let_def)

lemma createEntry_Inr_append:
  assumes "createEntry L p = Inr (e, L')"
  shows "L' = L @ [e] \<and> le_userId e = p_userId p \<and> le_assetId e = p_assetId p \<and>
         le_chainId e = p_chainId p \<and> le_direction e = p_direction p \<and>
         le_amount e = p_amount p \<and> 0 < p_amount p \<and>
         (p_direction p = CREDIT \<or> \<not> truthy_str (p_userId p))"
  using assms
  by (auto simp: createEntry_def mkEntry_def Let_def split: if_splits)

text \<open>
  Claim C9 (the code departs from it). The ledger of \<open>u1\<close> holds one credit of 10, so
  credits minus debits is 10. A DEBIT of 14 exceeds it; \<open>createEntry\<close> does not raise
  'Insufficient balance for debit' but the \<open>TypeError\<close> of the call of \<open>subtract\<close>. A
  DEBIT of 4, which the balance covers, raises the same \<open>TypeError\<close>: no debit of a user
  is written through \<open>createEntry\<close>, and the balance test that the claim describes is
  never evaluated. In both cases no row is created.
\<close>

theorem createEntry_debit_throws_type_error:
  "calculateBalance [ex_credit10] ''u1'' ''eth'' ''c1'' = 10 \<and>
   createEntry [ex_credit10] (ex_debit 14) =
     Inl (TypeError ''currentBalance.subtract is not a function'') \<and>
   createEntry [ex_credit10] (ex_debit 14) \<noteq>
     Inl (BadRequestException ''Insufficient balance for debit'') \<and>
   createEntry [ex_credit10] (ex_debit 4) =
     Inl (TypeError ''currentBalance.subtract is not a function'')"
  by (simp add: createEntry_def calculateBalance_def ex_credit10_def ex_debit_def
      truthy_str_def Let_def decimal_example_values)

section \<open>Withdrawals: the WITHDRAWAL_PAID entry\<close>

lemma finalizeWithdrawal_throws:
  "finalizeWithdrawal s userId assetId chainId amount requestId =
     Inl (BadRequestException ''Ledger entry amount must be positive'')"
  by (simp add: finalizeWithdrawal_def createEntry_def)

lemma markPaidManually_never_commits:
  "markPaidManually s now requestId adminId proofUrl adminNotes \<noteq> Inr x"
  by (simp add: markPaidManually_def finalizeWithdrawal_throws Let_def split: option.splits)

lemma checkPayoutStatus_ledger_untouched:
  "ledgerEntry (snd (checkPayoutStatus s now payoutTxId receipt currentBlock)) = ledgerEntry s"
  by (auto simp: checkPayoutStatus_def updateBalanceCache_def Let_def
      split: option.splits if_splits sum.splits)

lemmas withdrawal_example_defs =
  ex_wdb_def emptyDb_def ex_request_def ex_ptx_def ex_chain_def ex_key_def ex_receipt_def
  ex_credit10_def ex_debit_def mkEntry_def

text \<open>
  Claim C1 (the code departs from it). The request \<open>w1\<close> is SENT and its payout
  transaction has reached the 12 confirmations the chain requires. \<open>checkPayoutStatus\<close>
  completes the job, sets the request COMPLETED and takes its amount out of
  \<open>withdrawalsPending\<close>, and the ledger afterwards holds the WITHDRAWAL_REQUESTED entry
  of \<open>w1\<close> and no WITHDRAWAL_PAID entry: the confirmation step writes no ledger row.
\<close>

theorem checkPayoutStatus_completes_without_paid_entry:
  "fst (checkPayoutStatus (ex_wdb SENT) 5000 ''0xT'' (Some ex_receipt) 111) = Inr () \<and>
   map wr_status (withdrawalRequest
      (snd (checkPayoutStatus (ex_wdb SENT) 5000 ''0xT'' (Some ex_receipt) 111))) = [COMPLETED] \<and>
   balanceCache (snd (checkPayoutStatus (ex_wdb SENT) 5000 ''0xT'' (Some ex_receipt) 111)) ex_key =
     Some \<lparr>available = 9, staked = 0, rewardsAccrued = 0, withdrawalsPending = 0\<rparr> \<and>
   map le_entryType (filter (\<lambda>e. le_referenceId e = ''w1'')
     (ledgerEntry (snd (checkPayoutStatus (ex_wdb SENT) 5000 ''0xT'' (Some ex_receipt) 111)))) =
     [WITHDRAWAL_REQUESTED] \<and>
   length (filter (\<lambda>e. le_entryType e = WITHDRAWAL_PAID \<and> le_referenceId e = ''w1'')
     (ledgerEntry (snd (checkPayoutStatus (ex_wdb SENT) 5000 ''0xT'' (Some ex_receipt) 111)))) = 0"
proof -
  have run: "checkPayoutStatus (ex_wdb SENT) 5000 ''0xT'' (Some ex_receipt) 111 =
    (Inr (), (ex_wdb SENT)\<lparr>
       payoutTx := [ex_ptx\<lparr>ptx_status := PTX_CONFIRMED, ptx_confirmations := 12,
                           ptx_gasUsed := Some 21000, ptx_confirmedAt := Some 5000\<rparr>],
       withdrawalRequest := [ex_request COMPLETED],
       balanceCache := [ex_key \<mapsto> \<lparr>available = 9, staked = 0, rewardsAccrued = 0,
                                   withdrawalsPending = 0\<rparr>],
       notification := [\<lparr>n_userId = ''u1'', n_type = ''withdrawal_completed'',
                         n_title = ''Withdrawal Completed'', n_refId = ''w1''\<rparr>]\<rparr>)"
    by (simp add: checkPayoutStatus_def withdrawal_example_defs updateBalanceCache_def
        updateWhere_def)
  show ?thesis
    unfolding run by (simp add: withdrawal_example_defs)
qed

text \<open>
  Claim C2 (the code departs from it). For a request in each of the three statuses the
  guard admits, \<open>markPaidManually\<close> with admin notes throws 'Ledger entry amount must be
  positive': \<open>finalizeWithdrawal\<close> hands \<open>createEntry\<close> the amount 0, which
  \<open>createEntry\<close> refuses, and the transaction is rolled back. No request becomes
  PAID_MANUALLY, no WITHDRAWAL_PAID entry is written and \<open>withdrawalsPending\<close> keeps the
  reserved amount.
\<close>

theorem markPaidManually_throws_on_zero_amount_entry:
  "markPaidManually (ex_wdb PENDING_REVIEW) 5000 ''w1'' ''admin1'' None ''paid by wire'' =
     Inl (BadRequestException ''Ledger entry amount must be positive'') \<and>
   markPaidManually (ex_wdb APPROVED) 5000 ''w1'' ''admin1'' (Some ''https://proof'') ''paid by wire'' =
     Inl (BadRequestException ''Ledger entry amount must be positive'') \<and>
   markPaidManually (ex_wdb FAILED) 5000 ''w1'' ''admin1'' None ''paid by wire'' =
     Inl (BadRequestException ''Ledger entry amount must be positive'')"
  by (simp add: markPaidManually_def withdrawal_example_defs finalizeWithdrawal_throws)

section \<open>Staking: finalizing an unstake\<close>

lemmas staking_example_defs =
  ex_sdb_def emptyDb_def ex_stake_def ex_pool_def ex_asset_def ex_key_def year_ms_def

lemmas staking_run_defs =
  unstake_def calculateAccruedRewards_def PoolsService_getEffectiveApr_def scheduleMatches_def
  unstakeToBalance_def createEntry_def truthy_str_def calculateBalance_def
  updateBalanceCache_def updateWhere_def mkEntry_def processUnstakingPositions_def
  completeCooldown_def newRewardsOf_def getEffectiveApr_def Let_def

text \<open>
  What the two finalization paths do to the balance projection, for every input on which
  they commit: the direct path adds the total to \<open>available\<close> and takes the same total
  out of \<open>staked\<close>; the sweep adds the total to \<open>available\<close>, takes the principal out of
  \<open>staked\<close> and the previously accrued rewards out of \<open>rewardsAccrued\<close>.
\<close>

lemma unstakeToBalance_projection:
  assumes "unstakeToBalance s u a c amt sid = Inr s'"
  shows "\<exists>b. balanceCache s (u, a, c) = Some b \<and>
             balanceCache s' (u, a, c) =
               Some (b\<lparr>available := available b + amt, staked := staked b - amt\<rparr>)"
  using assms
  by (auto simp: unstakeToBalance_def updateBalanceCache_def
      split: sum.splits option.splits prod.splits)

lemma unstake_completed_projection:
  assumes "unstake s now userId stakeId = Inr (UnstakeCompleted tot princ rew, s')"
  shows "\<exists>stake pl a b.
           find (\<lambda>p. sp_id p = stakeId) (stakePosition s) = Some stake \<and>
           find (\<lambda>p. pl_id p = sp_poolId stake) (pool s) = Some pl \<and>
           find (\<lambda>x. as_id x = pl_assetId pl) (asset s) = Some a \<and>
           princ = sp_amount stake \<and> rew = calculateAccruedRewards s now stake \<and>
           tot = Decimal_add princ rew \<and>
           balanceCache s (userId, pl_assetId pl, as_chainId a) = Some b \<and>
           balanceCache s' (userId, pl_assetId pl, as_chainId a) =
             Some (b\<lparr>available := available b + tot, staked := staked b - tot\<rparr>)"
  using assms
  by (auto simp: unstake_def Let_def split: option.splits if_splits sum.splits
      dest!: unstakeToBalance_projection)

lemma completeCooldown_projection:
  assumes "completeCooldown s now stake = Inr s'"
  shows "\<exists>pl a b.
           find (\<lambda>p. pl_id p = sp_poolId stake) (pool s) = Some pl \<and>
           find (\<lambda>x. as_id x = pl_assetId pl) (asset s) = Some a \<and>
           balanceCache s (sp_userId stake, pl_assetId pl, as_chainId a) = Some b \<and>
           balanceCache s' (sp_userId stake, pl_assetId pl, as_chainId a) =
             Some (b\<lparr>available := available b +
                          Decimal_add (sp_amount stake)
                            (Decimal_add (sp_rewardsAccrued stake) (newRewardsOf s now stake)),
                      staked := staked b - sp_amount stake,
                      rewardsAccrued := rewardsAccrued b - sp_rewardsAccrued stake\<rparr>)"
  using assms
  by (auto simp: completeCooldown_def updateBalanceCache_def Let_def
      split: option.splits if_splits sum.splits)

text \<open>
  Two runs of the direct path off the inputs of the claims: one second after the last
  calculation the accrued total of \<open>s1\<close> is 5.0000003170979198376, the sum rounded to 20
  digits; and a position locked until a later date is refused with that date in the
  message.
\<close>

lemma calculateAccruedRewards_one_second:
  "calculateAccruedRewards (ex_sdb ACTIVE) 1000 (ex_stake ACTIVE) =
     50000003170979198376 / 10 ^ 19"
  by code_simp

lemma unstake_locked_message:
  "unstake (ex_flexdb\<lparr>stakePosition :=
       [(ex_stake ACTIVE)\<lparr>sp_lockedUntil := Some 1700000000123\<rparr>]\<rparr>) 1000 ''u1'' ''s1'' =
     Inl (BadRequestException ''Stake is locked until 2023-11-14T22:13:20.123Z'')"
  by (simp add: unstake_def ex_flexdb_def staking_example_defs toISOString_examples)

text \<open>
  Claim C3 (the code departs from it). The ACTIVE, unlocked position \<open>s1\<close> (principal
  100, accrued rewards 5) in a pool without cooldown is unstaked one year after its last
  reward calculation at 10 percent: the final reward is 10, \<open>totalRewards\<close> 15 and
  \<open>totalAmount\<close> 115. \<open>unstake\<close> completes the position, takes the principal out of
  \<open>pool.totalStaked\<close> and posts one UNSTAKE_COMPLETED credit of 115, but
  \<open>unstakeToBalance\<close> takes \<open>totalAmount\<close> out of \<open>staked\<close>, which becomes -15,
  and leaves \<open>rewardsAccrued\<close> at 5; the claim has 0 and 0.
\<close>

theorem unstake_projection_deltas:
  "map_sum id (\<lambda>(r, s'). (r, balanceCache s' ex_key, map pl_totalStaked (pool s'),
        map sp_status (stakePosition s'),
        map (\<lambda>e. (le_entryType e, le_direction e, le_amount e)) (ledgerEntry s')))
     (unstake ex_flexdb year_ms ''u1'' ''s1'') =
   Inr (UnstakeCompleted 115 100 15,
        Some \<lparr>available = 115, staked = - 15, rewardsAccrued = 5, withdrawalsPending = 0\<rparr>,
        [0], [STAKE_COMPLETED], [(UNSTAKE_COMPLETED, CREDIT, 115)])"
  by (simp add: staking_run_defs ex_flexdb_def staking_example_defs decimal_example_values
      year_reward_value)

text \<open>
  Claim C4 (the code departs from it). The same position (principal 100, accrued rewards
  5, cooldown ended) and the same clock through the two paths. \<open>unstake\<close> only accepts an ACTIVE position and the sweep only an UNSTAKING one,
  so the two runs differ in the status column alone. Both post an UNSTAKE_COMPLETED
  credit of 115 and add 115 to \<open>available\<close>; the sweep takes the principal 100 out of
  \<open>staked\<close> and the accrued 5 out of \<open>rewardsAccrued\<close>, the direct path takes 115 out of
  \<open>staked\<close> and nothing out of \<open>rewardsAccrued\<close>.
\<close>

theorem sweep_and_direct_finalization_differ:
  "(let s' = processUnstakingPositions (ex_sdb UNSTAKING) year_ms in
      (balanceCache s' ex_key, map le_amount (ledgerEntry s'))) =
     (Some \<lparr>available = 115, staked = 0, rewardsAccrued = 0, withdrawalsPending = 0\<rparr>, [115]) \<and>
   map_sum id (\<lambda>(r, s'). (balanceCache s' ex_key, map le_amount (ledgerEntry s')))
     (unstake (ex_sdb ACTIVE) year_ms ''u1'' ''s1'') =
     Inr (Some \<lparr>available = 115, staked = - 15, rewardsAccrued = 5, withdrawalsPending = 0\<rparr>,
          [115])"
  by (simp add: staking_run_defs staking_example_defs decimal_example_values
      year_reward_value)

section \<open>Fraud scoring\<close>

text \<open>
  Whatever \<open>emailVerified\<close> is, an account younger than seven days gets the new-account
  indicator from \<open>checkPatterns\<close>, and that is the only indicator \<open>checkPatterns\<close>
  contributes.
\<close>

lemma checkPatterns_new_account:
  assumes "find (\<lambda>u. us_id u = userId) (user s) = Some u"
      and "(of_int (now - us_createdAt u) :: rat) / (24 * 60 * 60 * 1000) < 7"
  shows "checkPatterns s now userId =
           Some \<lparr>fi_type = SUSPICIOUS_PATTERN, fi_severity = MEDIUM, fi_score = 25\<rparr>"
  using assms by (simp add: checkPatterns_def Let_def)

text \<open>
  Claim C8 (the code departs from it). The account of \<open>u1\<close> is one day old and its email
  is unverified. The analysis of a withdrawal to a new address returns the new-address
  indicator and the new-account indicator (MEDIUM, 25) and a total of 55: the
  unverified-email indicator (LOW, 15) is not among the indicators, because
  \<open>checkPatterns\<close> returns at the new-account test.
\<close>

theorem analysis_omits_unverified_email_for_new_account:
  "analyzeWithdrawalRequest ex_svc ex_fdb 86400000 ''u1'' ''0xD1'' 1 ''eth'' ''c1'' =
     \<lparr>indicators = [\<lparr>fi_type = NEW_ADDRESS, fi_severity = MEDIUM, fi_score = 30\<rparr>,
                    \<lparr>fi_type = SUSPICIOUS_PATTERN, fi_severity = MEDIUM, fi_score = 25\<rparr>],
      totalScore = 55\<rparr> \<and>
   filter (\<lambda>i. fi_severity i = LOW \<and> fi_score i = 15)
     (indicators (analyzeWithdrawalRequest ex_svc ex_fdb 86400000 ''u1'' ''0xD1'' 1 ''eth'' ''c1'')) = []"
  by (simp add: analyzeWithdrawalRequest_def ex_svc_def newFraudService_def orDefault_def
      ex_fdb_def emptyDb_def checkNewAddress_def checkLargeAmount_def checkVelocity_def
      checkDailyLimit_def checkPatterns_def pushIf_def ex_asset_def ex_user_def priceOf_def
      toLowerCase_def lowerChar_def Let_def decimal_example_values)

section \<open>Withdrawal submission with an idempotency key\<close>

lemma addToWhitelist_keeps_requests:
  "withdrawalRequest (addToWhitelist svc s now u c addr l) = withdrawalRequest s"
  by (simp add: addToWhitelist_def Let_def split: option.splits)

text \<open>A key that is in the table is answered with its row, and nothing is written.\<close>

lemma createRequest_existing:
  "find (\<lambda>r. wr_idempotencyKey r = cr_idempotencyKey p) (withdrawalRequest s) = Some r \<Longrightarrow>
   createRequest svc s now nid uid p = (Inr (r, None), s)"
  by (simp add: createRequest_def)

text \<open>
  The reservation never commits for a user: its ledger entry is a DEBIT, which
  \<open>createEntry\<close> cannot write. So a submission with a key that is not in the table
  throws, whatever its other fields, and the table of requests is left as it was.
\<close>

lemma reserveForWithdrawal_throws:
  assumes "userId \<noteq> []"
  shows "\<exists>e. reserveForWithdrawal s userId assetId chainId amount requestId = Inl e"
  using assms
  by (auto simp: reserveForWithdrawal_def createEntry_def truthy_str_def Let_def
      split: option.splits)

lemma reserveForWithdrawal_case:
  assumes "userId \<noteq> []"
  shows "(case reserveForWithdrawal s userId assetId chainId amount requestId of
            Inl e \<Rightarrow> f e | Inr s' \<Rightarrow> g s') =
         f (projl (reserveForWithdrawal s userId assetId chainId amount requestId))"
  using reserveForWithdrawal_throws[OF assms, of s assetId chainId amount requestId] by auto

lemma createRequest_new_key_throws:
  assumes "userId \<noteq> []"
    and "find (\<lambda>r. wr_idempotencyKey r = cr_idempotencyKey p) (withdrawalRequest s) = None"
  shows "(\<exists>e. fst (createRequest svc s now newId userId p) = Inl e) \<and>
         withdrawalRequest (snd (createRequest svc s now newId userId p)) = withdrawalRequest s"
  using assms(2)
  by (auto simp: createRequest_def Let_def addToWhitelist_keeps_requests
      reserveForWithdrawal_case[OF assms(1)] split: option.splits)

text \<open>
  Claim C6 (the code departs from it). \<open>u1\<close> holds an available balance of 10 and submits
  a withdrawal of 1 under the key \<open>k9\<close>, which is not in the table. The submission throws
  the \<open>TypeError\<close> of the ledger debit inside the transaction: the created request row is
  rolled back and only the whitelist row, written outside the transaction, stays. The
  second submission with the same key finds no row, runs the same path and throws again:
  two submissions yield no row and two errors, where the claim has one row returned by
  both.
\<close>

theorem createRequest_new_key_throws_type_error:
  "createRequest ex_svc ex_fdb 86400000 ''w9'' ''u1'' ex_params =
     (Inl (TypeError ''currentBalance.subtract is not a function''), ex_fdb_whitelisted) \<and>
   createRequest ex_svc ex_fdb_whitelisted 86400050 ''w10'' ''u1'' ex_params =
     (Inl (TypeError ''currentBalance.subtract is not a function''), ex_fdb_whitelisted) \<and>
   withdrawalRequest ex_fdb_whitelisted = [] \<and>
   available (the (balanceCache ex_fdb_whitelisted ex_key)) = 10"
  by (simp add: createRequest_def ex_params_def ex_fdb_whitelisted_def ex_fdb_def emptyDb_def
      ex_asset_def ex_key_def ex_svc_def newFraudService_def orDefault_def ex_user_def
      analyzeWithdrawalRequest_def checkNewAddress_def checkLargeAmount_def checkVelocity_def
      checkDailyLimit_def checkPatterns_def pushIf_def priceOf_def addToWhitelist_def
      reserveForWithdrawal_def createEntry_def truthy_str_def calculateBalance_def
      ex_credit10_def updateBalanceCache_def updateWhere_def mkEntry_def toLowerCase_def
      lowerChar_def Let_def decimal_example_values)

section \<open>Reward accrual\<close>

lemma latestFirst_None: "latestFirst xs = None \<longleftrightarrow> xs = []"
  by (induction xs) (auto split: option.splits)

lemma latestFirst_Some:
  "latestFirst xs = Some r \<Longrightarrow>
   r \<in> set xs \<and> (\<forall>r'\<in>set xs. ap_effectiveFrom r' \<le> ap_effectiveFrom r)"
proof (induction xs arbitrary: r)
  case Nil
  then show ?case by simp
next
  case (Cons x xs)
  show ?case
  proof (cases "latestFirst xs")
    case None
    with Cons.prems show ?thesis by (simp add: latestFirst_None)
  next
    case (Some y)
    from Cons.IH[OF Some] Cons.prems Some show ?thesis
      by (auto split: if_splits)
  qed
qed

lemma scheduleMatches_iff:
  "scheduleMatches pid now r \<longleftrightarrow>
     ap_poolId r = pid \<and> ap_effectiveFrom r \<le> now \<and>
     (ap_effectiveTo r = None \<or> (\<exists>t. ap_effectiveTo r = Some t \<and> now \<le> t))"
  by (auto simp: scheduleMatches_def split: option.splits)

lemma newRewardsOf_error:
  "\<bar>newRewardsOf s now stake -
      sp_amount stake * (getEffectiveApr s (sp_poolId stake) now / 100 / 365 / 86400) *
        (of_int (now - sp_lastRewardCalculation stake) / 1000)\<bar>
   \<le> 4 / 10 ^ 19 *
      \<bar>sp_amount stake * (getEffectiveApr s (sp_poolId stake) now / 100 / 365 / 86400) *
        (of_int (now - sp_lastRewardCalculation stake) / 1000)\<bar>"
  unfolding newRewardsOf_def Let_def by (rule reward_chain_error)

lemmas reward_example_defs =
  newRewardsOf_def getEffectiveApr_def scheduleMatches_def ex_sdb_def emptyDb_def ex_stake_def
  ex_pool_def year_ms_def Let_def

lemma getEffectiveApr_schedule:
  assumes "\<exists>r\<in>set (aprSchedule s). scheduleMatches pid now r"
  shows "\<exists>r\<in>set (aprSchedule s). scheduleMatches pid now r \<and>
           (\<forall>r'\<in>set (aprSchedule s). scheduleMatches pid now r' \<longrightarrow>
               ap_effectiveFrom r' \<le> ap_effectiveFrom r) \<and>
           getEffectiveApr s pid now = ap_apr r"
proof -
  from assms have "filter (scheduleMatches pid now) (aprSchedule s) \<noteq> []"
    by (auto simp: filter_empty_conv)
  then obtain r where r: "latestFirst (filter (scheduleMatches pid now) (aprSchedule s)) = Some r"
    by (cases "latestFirst (filter (scheduleMatches pid now) (aprSchedule s))")
       (auto simp: latestFirst_None)
  from latestFirst_Some[OF r] r show ?thesis
    by (auto simp: getEffectiveApr_def intro!: bexI[of _ r])
qed

lemma getEffectiveApr_fallback:
  assumes "\<not> (\<exists>r\<in>set (aprSchedule s). scheduleMatches pid now r)"
    and "find (\<lambda>p. pl_id p = pid) (pool s) = Some p"
  shows "getEffectiveApr s pid now = pl_currentApr p"
proof -
  from assms(1) have "filter (scheduleMatches pid now) (aprSchedule s) = []"
    by (auto simp: filter_empty_conv)
  with assms(2) show ?thesis by (simp add: getEffectiveApr_def)
qed

lemma accrueStake_skip:
  "(of_int (now - sp_lastRewardCalculation stake) :: rat) / 1000 < 1 \<Longrightarrow>
   accrueStake s now stake = s"
  by (simp add: accrueStake_def Let_def)

lemma find_updateWhere_same:
  "find (\<lambda>x. k x = i) xs = Some y \<Longrightarrow> k (f y) = i \<Longrightarrow>
   find (\<lambda>x. k x = i) (updateWhere (\<lambda>x. k x = i) f xs) = Some (f y)"
  by (induction xs) (auto simp: updateWhere_def split: if_splits)

lemma accrueStake_effect:
  assumes "find (\<lambda>p. sp_id p = sp_id stake) (stakePosition s) = Some stake"
    and "find (\<lambda>p. pl_id p = sp_poolId stake) (pool s) = Some pl"
    and "find (\<lambda>a. as_id a = pl_assetId pl) (asset s) = Some a"
    and "1 \<le> (of_int (now - sp_lastRewardCalculation stake) :: rat) / 1000"
    and "0 < newRewardsOf s now stake"
  shows "find (\<lambda>p. sp_id p = sp_id stake) (stakePosition (accrueStake s now stake)) =
           Some (stake\<lparr>sp_rewardsAccrued := sp_rewardsAccrued stake + newRewardsOf s now stake,
                       sp_lastRewardCalculation := now\<rparr>)"
proof -
  have "find (\<lambda>p. sp_id p = sp_id stake) (updateWhere (\<lambda>p. sp_id p = sp_id stake)
     (\<lambda>p. p\<lparr>sp_rewardsAccrued := sp_rewardsAccrued p + newRewardsOf s now stake,
             sp_lastRewardCalculation := now\<rparr>) (stakePosition s)) =
      Some (stake\<lparr>sp_rewardsAccrued := sp_rewardsAccrued stake + newRewardsOf s now stake,
                       sp_lastRewardCalculation := now\<rparr>)"
    by (rule find_updateWhere_same[OF assms(1)]) simp
  with assms show ?thesis
    by (simp add: accrueStake_def Let_def upsertBalanceCache_def not_less[symmetric]
        split: option.splits)
qed

text \<open>
  Claim C5, as stated, with the reward equal to the exact product, fails on the code
  one second after the last calculation of the position \<open>s1\<close> (amount 100, pool
  at 10 percent): the product is 1/3153600, which no finite decimal equals, and the
  worker computes 3.1709791983764586505e-7.
\<close>

theorem accrual_reward_is_rounded:
  "newRewardsOf (ex_sdb ACTIVE) 1000 (ex_stake ACTIVE) = 31709791983764586505 / 10 ^ 26 \<and>
   sp_amount (ex_stake ACTIVE) *
     (getEffectiveApr (ex_sdb ACTIVE) (sp_poolId (ex_stake ACTIVE)) 1000 / 100 / 365 / 86400) *
     (of_int (1000 - sp_lastRewardCalculation (ex_stake ACTIVE)) / 1000) = 1 / 3153600 \<and>
   newRewardsOf (ex_sdb ACTIVE) 1000 (ex_stake ACTIVE) \<noteq>
   sp_amount (ex_stake ACTIVE) *
     (getEffectiveApr (ex_sdb ACTIVE) (sp_poolId (ex_stake ACTIVE)) 1000 / 100 / 365 / 86400) *
     (of_int (1000 - sp_lastRewardCalculation (ex_stake ACTIVE)) / 1000)"
proof -
  have a: "newRewardsOf (ex_sdb ACTIVE) 1000 (ex_stake ACTIVE) =
             31709791983764586505 / 10 ^ 26"
    by (simp add: reward_example_defs second_reward_value)
  have b: "sp_amount (ex_stake ACTIVE) *
     (getEffectiveApr (ex_sdb ACTIVE) (sp_poolId (ex_stake ACTIVE)) 1000 / 100 / 365 / 86400) *
     (of_int (1000 - sp_lastRewardCalculation (ex_stake ACTIVE)) / 1000) = 1 / 3153600"
    by (simp add: reward_example_defs)
  have c: "(31709791983764586505 / 10 ^ 26 :: rat) \<noteq> 1 / 3153600" by simp
  show ?thesis unfolding a b using c by simp
qed

text \<open>
  Claim C5, amended. In an accrual cycle the reward computed for a position is
  \<open>amount.mul(apr.div(100).div(365).div(24).div(60).div(60)).mul(dt)\<close>, each of the seven
  operations rounded to 20 significant digits: it lies within the relative error
  \<open>4 / 10^19\<close> of the product \<open>amount * (apr / 100 / 365 / 86400) * dt\<close>. Here \<open>dt\<close> is
  the seconds (milliseconds over 1000) since \<open>lastRewardCalculation\<close> and \<open>apr\<close> the
  worker's effective APR of the position's pool at \<open>now\<close>, which is also what
  \<open>PoolsService.getEffectiveApr\<close> returns for the current date. That APR is the \<open>apr\<close> of
  a schedule row of the pool that is effective at \<open>now\<close> (\<open>effectiveFrom\<close> at or before
  \<open>now\<close>, \<open>effectiveTo\<close> null or at or after \<open>now\<close>) and has the latest \<open>effectiveFrom\<close>
  of all such rows, when there is one, and the pool's \<open>currentApr\<close> when there is none.
  A position with \<open>dt\<close> below one second is skipped with the whole store unchanged; a
  position of the table with a positive reward and \<open>dt\<close> of at least a second gets the
  reward added to \<open>rewardsAccrued\<close> and \<open>lastRewardCalculation\<close> set to \<open>now\<close>.
\<close>

theorem accrual_cycle_reward:
  "\<bar>newRewardsOf s now stake -
      sp_amount stake * (getEffectiveApr s (sp_poolId stake) now / 100 / 365 / 86400) *
        (of_int (now - sp_lastRewardCalculation stake) / 1000)\<bar>
     \<le> 4 / 10 ^ 19 *
        \<bar>sp_amount stake * (getEffectiveApr s (sp_poolId stake) now / 100 / 365 / 86400) *
          (of_int (now - sp_lastRewardCalculation stake) / 1000)\<bar> \<and>
   PoolsService_getEffectiveApr s now pid None = getEffectiveApr s pid now \<and>
   ((\<exists>r\<in>set (aprSchedule s). scheduleMatches pid now r) \<longrightarrow>
      (\<exists>r\<in>set (aprSchedule s).
          ap_poolId r = pid \<and> ap_effectiveFrom r \<le> now \<and>
          (ap_effectiveTo r = None \<or> (\<exists>t. ap_effectiveTo r = Some t \<and> now \<le> t)) \<and>
          (\<forall>r'\<in>set (aprSchedule s). scheduleMatches pid now r' \<longrightarrow>
              ap_effectiveFrom r' \<le> ap_effectiveFrom r) \<and>
          getEffectiveApr s pid now = ap_apr r)) \<and>
   (\<not> (\<exists>r\<in>set (aprSchedule s). scheduleMatches pid now r) \<and>
      find (\<lambda>p. pl_id p = pid) (pool s) = Some p
      \<longrightarrow> getEffectiveApr s pid now = pl_currentApr p) \<and>
   ((of_int (now - sp_lastRewardCalculation stake) :: rat) / 1000 < 1
      \<longrightarrow> accrueStake s now stake = s) \<and>
   (find (\<lambda>p. sp_id p = sp_id stake) (stakePosition s) = Some stake \<and>
    find (\<lambda>p. pl_id p = sp_poolId stake) (pool s) = Some pl \<and>
    find (\<lambda>a. as_id a = pl_assetId pl) (asset s) = Some a \<and>
    1 \<le> (of_int (now - sp_lastRewardCalculation stake) :: rat) / 1000 \<and>
    0 < newRewardsOf s now stake
      \<longrightarrow> find (\<lambda>p. sp_id p = sp_id stake) (stakePosition (accrueStake s now stake)) =
            Some (stake\<lparr>sp_rewardsAccrued := sp_rewardsAccrued stake + newRewardsOf s now stake,
                        sp_lastRewardCalculation := now\<rparr>))"
proof (intro conjI impI)
  show "\<bar>newRewardsOf s now stake -
      sp_amount stake * (getEffectiveApr s (sp_poolId stake) now / 100 / 365 / 86400) *
        (of_int (now - sp_lastRewardCalculation stake) / 1000)\<bar>
     \<le> 4 / 10 ^ 19 *
        \<bar>sp_amount stake * (getEffectiveApr s (sp_poolId stake) now / 100 / 365 / 86400) *
          (of_int (now - sp_lastRewardCalculation stake) / 1000)\<bar>"
    by (rule newRewardsOf_error)
next
  show "PoolsService_getEffectiveApr s now pid None = getEffectiveApr s pid now"
    by (simp add: PoolsService_getEffectiveApr_def getEffectiveApr_def)
next
  assume "\<exists>r\<in>set (aprSchedule s). scheduleMatches pid now r"
  from getEffectiveApr_schedule[OF this]
  show "\<exists>r\<in>set (aprSchedule s).
          ap_poolId r = pid \<and> ap_effectiveFrom r \<le> now \<and>
          (ap_effectiveTo r = None \<or> (\<exists>t. ap_effectiveTo r = Some t \<and> now \<le> t)) \<and>
          (\<forall>r'\<in>set (aprSchedule s). scheduleMatches pid now r' \<longrightarrow>
              ap_effectiveFrom r' \<le> ap_effectiveFrom r) \<and>
          getEffectiveApr s pid now = ap_apr r"
    by (simp add: scheduleMatches_iff)
next
  assume "\<not> (\<exists>r\<in>set (aprSchedule s). scheduleMatches pid now r) \<and>
      find (\<lambda>p. pl_id p = pid) (pool s) = Some p"
  then show "getEffectiveApr s pid now = pl_currentApr p"
    using getEffectiveApr_fallback by blast
next
  assume "(of_int (now - sp_lastRewardCalculation stake) :: rat) / 1000 < 1"
  then show "accrueStake s now stake = s" by (rule accrueStake_skip)
next
  assume "find (\<lambda>p. sp_id p = sp_id stake) (stakePosition s) = Some stake \<and>
    find (\<lambda>p. pl_id p = sp_poolId stake) (pool s) = Some pl \<and>
    find (\<lambda>a. as_id a = pl_assetId pl) (asset s) = Some a \<and>
    1 \<le> (of_int (now - sp_lastRewardCalculation stake) :: rat) / 1000 \<and>
    0 < newRewardsOf s now stake"
  then show "find (\<lambda>p. sp_id p = sp_id stake) (stakePosition (accrueStake s now stake)) =
            Some (stake\<lparr>sp_rewardsAccrued := sp_rewardsAccrued stake + newRewardsOf s now stake,
                        sp_lastRewardCalculation := now\<rparr>)"
    using accrueStake_effect by blast
qed

theorem accrual_cycle_reward_witness:
  "accrueStake ((ex_sdb ACTIVE)\<lparr>aprSchedule := ex_schedules\<rparr>) 500 (ex_stake ACTIVE) =
     (ex_sdb ACTIVE)\<lparr>aprSchedule := ex_schedules\<rparr> \<and>
   getEffectiveApr ((ex_sdb ACTIVE)\<lparr>aprSchedule := ex_schedules\<rparr>) ''p1'' 500 = 9 \<and>
   getEffectiveApr (ex_sdb ACTIVE) ''p1'' year_ms = 10 \<and>
   newRewardsOf (ex_sdb ACTIVE) year_ms (ex_stake ACTIVE) = 10 \<and>
   newRewardsOf (ex_sdb ACTIVE) 1000 (ex_stake ACTIVE) = 31709791983764586505 / 10 ^ 26 \<and>
   \<bar>newRewardsOf (ex_sdb ACTIVE) 1000 (ex_stake ACTIVE) - 1 / 3153600\<bar>
     \<le> 4 / 10 ^ 19 * (1 / 3153600) \<and>
   find (\<lambda>p. sp_id p = ''s1'') (stakePosition (accrueStake (ex_sdb ACTIVE) year_ms (ex_stake ACTIVE))) =
     Some ((ex_stake ACTIVE)\<lparr>sp_rewardsAccrued := 15, sp_lastRewardCalculation := year_ms\<rparr>)"
proof -
  let ?sA = "(ex_sdb ACTIVE)\<lparr>aprSchedule := ex_schedules\<rparr>"
  let ?sB = "ex_sdb ACTIVE"
  let ?st = "ex_stake ACTIVE"
  note A = accrual_cycle_reward[of ?sA 500 ?st "''p1''" ex_pool ex_pool ex_asset]
  note B = accrual_cycle_reward[of ?sB year_ms ?st "''p1''" ex_pool ex_pool ex_asset]
  note C = accrual_cycle_reward[of ?sB 1000 ?st "''p1''" ex_pool ex_pool ex_asset]
  have short: "(of_int (500 - sp_lastRewardCalculation ?st) :: rat) / 1000 < 1"
    by (simp add: ex_stake_def)
  from A short have skip: "accrueStake ?sA 500 ?st = ?sA" by blast
  have some: "\<exists>r\<in>set (aprSchedule ?sA). scheduleMatches ''p1'' 500 r"
    by (simp add: ex_schedules_def scheduleMatches_def)
  from A some obtain r where r: "r \<in> set (aprSchedule ?sA)"
      "ap_poolId r = ''p1''" "ap_effectiveFrom r \<le> 500"
      "ap_effectiveTo r = None \<or> (\<exists>t. ap_effectiveTo r = Some t \<and> 500 \<le> t)"
      "\<forall>r'\<in>set (aprSchedule ?sA). scheduleMatches ''p1'' 500 r' \<longrightarrow>
          ap_effectiveFrom r' \<le> ap_effectiveFrom r"
      "getEffectiveApr ?sA ''p1'' 500 = ap_apr r"
    by blast
  from r(1,4,5) have "ap_apr r = 9"
    by (auto simp: ex_schedules_def scheduleMatches_def)
  with r(6) have sched: "getEffectiveApr ?sA ''p1'' 500 = 9" by simp
  have none: "\<not> (\<exists>r\<in>set (aprSchedule ?sB). scheduleMatches ''p1'' year_ms r)"
    by (simp add: ex_sdb_def emptyDb_def)
  have pl: "find (\<lambda>p. pl_id p = ''p1'') (pool ?sB) = Some ex_pool"
    by (simp add: ex_sdb_def emptyDb_def ex_pool_def)
  from B none pl have "getEffectiveApr ?sB ''p1'' year_ms = pl_currentApr ex_pool" by blast
  then have fallback: "getEffectiveApr ?sB ''p1'' year_ms = 10" by (simp add: ex_pool_def)
  have reward: "newRewardsOf ?sB year_ms ?st = 10"
    by (simp add: reward_example_defs year_reward_value)
  have second: "newRewardsOf ?sB 1000 ?st = 31709791983764586505 / 10 ^ 26"
    by (simp add: reward_example_defs second_reward_value)
  have product: "sp_amount ?st * (getEffectiveApr ?sB (sp_poolId ?st) 1000 / 100 / 365 / 86400) *
       (of_int (1000 - sp_lastRewardCalculation ?st) / 1000) = 1 / 3153600"
    by (simp add: reward_example_defs)
  from C have "\<bar>newRewardsOf ?sB 1000 ?st -
      sp_amount ?st * (getEffectiveApr ?sB (sp_poolId ?st) 1000 / 100 / 365 / 86400) *
        (of_int (1000 - sp_lastRewardCalculation ?st) / 1000)\<bar>
     \<le> 4 / 10 ^ 19 *
        \<bar>sp_amount ?st * (getEffectiveApr ?sB (sp_poolId ?st) 1000 / 100 / 365 / 86400) *
          (of_int (1000 - sp_lastRewardCalculation ?st) / 1000)\<bar>" by blast
  then have bound: "\<bar>newRewardsOf ?sB 1000 ?st - 1 / 3153600\<bar> \<le> 4 / 10 ^ 19 * (1 / 3153600)"
    unfolding product by simp
  have row: "find (\<lambda>p. sp_id p = sp_id ?st) (stakePosition ?sB) = Some ?st"
    by (simp add: ex_sdb_def emptyDb_def)
  have pl': "find (\<lambda>p. pl_id p = sp_poolId ?st) (pool ?sB) = Some ex_pool"
    by (simp add: ex_sdb_def emptyDb_def ex_pool_def ex_stake_def)
  have as: "find (\<lambda>a. as_id a = pl_assetId ex_pool) (asset ?sB) = Some ex_asset"
    by (simp add: ex_sdb_def emptyDb_def ex_pool_def ex_asset_def)
  have long: "1 \<le> (of_int (year_ms - sp_lastRewardCalculation ?st) :: rat) / 1000"
    by (simp add: ex_stake_def year_ms_def)
  from reward have pos: "0 < newRewardsOf ?sB year_ms ?st" by simp
  from B row pl' as long pos
  have "find (\<lambda>p. sp_id p = sp_id ?st) (stakePosition (accrueStake ?sB year_ms ?st)) =
            Some (?st\<lparr>sp_rewardsAccrued := sp_rewardsAccrued ?st + newRewardsOf ?sB year_ms ?st,
                        sp_lastRewardCalculation := year_ms\<rparr>)" by blast
  with reward have effect:
    "find (\<lambda>p. sp_id p = ''s1'') (stakePosition (accrueStake ?sB year_ms ?st)) =
       Some (?st\<lparr>sp_rewardsAccrued := 15, sp_lastRewardCalculation := year_ms\<rparr>)"
    by (simp add: ex_stake_def)
  from skip sched fallback reward second bound effect show ?thesis by simp
qed

section \<open>Login with two-factor authentication\<close>

lemmas auth_example_defs =
  ex_env_def ex_adb_def emptyDb_def ex_user_def ex_secret_def ex_dto_def toLowerCase_def
  lowerChar_def

text \<open>
  Claim C7, as stated, fails on the code in two places. For the user \<open>u1\<close> (two-factor
  enabled, secret verified, correct email and password): a login that supplies no code
  fails with the bad-request error '2FA code required', which is not an authorization
  error; and a login that supplies the user's unused recovery code fails with 'Invalid
  2FA code', although \<open>verifyRecoveryCode\<close> would accept that code: \<open>login\<close> only calls
  \<open>verifyToken\<close>.
\<close>

theorem login_claim_counterexample:
  "login ex_env ex_adb 1000 ''sid'' ''rt'' (ex_dto None) ''ip'' ''ua'' =
     Inl (BadRequestException ''2FA code required'') \<and>
   fst (verifyRecoveryCode ex_env ex_adb 1000 ''u1'' ''ABCD-EFGH'') \<and>
   login ex_env ex_adb 1000 ''sid'' ''rt'' (ex_dto (Some ''ABCD-EFGH'')) ''ip'' ''ua'' =
     Inl (UnauthorizedException ''Invalid 2FA code'')"
  by (simp add: login_def verifyToken_def verifyRecoveryCode_def truthy_str_def auth_example_defs
      Let_def)

text \<open>
  Claim C7, amended. For an active user with two-factor authentication enabled and a
  verified secret that decrypts, a login with the correct email and password: succeeds
  when given a code that is a currently valid TOTP for the secret (it records the login
  time and creates the session and the tokens); fails with the bad-request error '2FA
  code required' when no code, or an empty one, is supplied; fails with the authorization
  error 'Invalid 2FA code' when the supplied code is neither a valid TOTP nor an unused
  recovery code of the user.
\<close>

theorem login_two_factor:
  assumes u: "find (\<lambda>x. us_email x = toLowerCase (dto_email dto)) (user s) = Some u"
      and active: "us_isActive u"
      and pw: "argon2_verify env (us_passwordHash u) (dto_password dto)"
      and tfa: "us_twoFactorEnabled u"
      and sec: "find (\<lambda>x. tf_userId x = us_id u) (twoFactorSecret s) = Some t"
      and ver: "tf_isVerified t"
      and dec: "decrypt env (tf_encryptedSecret t) = Inr secret"
  shows "(\<forall>code. dto_totpCode dto = Some code \<and> code \<noteq> [] \<and> authenticator_verify env now code secret
            \<longrightarrow> login env s now sid rtoken dto ip ua =
                  Inr (createAuthTokens env
                         (s\<lparr>user := updateWhere (\<lambda>x. us_id x = us_id u)
                                      (\<lambda>x. x\<lparr>us_lastLoginAt := Some now\<rparr>) (user s)\<rparr>)
                         now sid rtoken (us_id u) (us_email u) (us_role u) ip ua)) \<and>
         (dto_totpCode dto = None \<or> dto_totpCode dto = Some []
            \<longrightarrow> login env s now sid rtoken dto ip ua =
                  Inl (BadRequestException ''2FA code required'')) \<and>
         (\<forall>code. dto_totpCode dto = Some code \<and> code \<noteq> [] \<and>
                 \<not> authenticator_verify env now code secret \<and>
                 \<not> fst (verifyRecoveryCode env s now (us_id u) code)
            \<longrightarrow> login env s now sid rtoken dto ip ua =
                  Inl (UnauthorizedException ''Invalid 2FA code''))"
  using assms
  by (auto simp: login_def verifyToken_def truthy_str_def Let_def)

theorem login_two_factor_witness:
  "login ex_env ex_adb 1000 ''sid'' ''rt'' (ex_dto (Some ''123456'')) ''ip'' ''ua'' =
     Inr (\<lparr>accessToken = ''jwt:sid'', refreshToken = ''rt'', expiresIn = 900\<rparr>,
          ex_adb\<lparr>user := [ex_user\<lparr>us_lastLoginAt := Some 1000\<rparr>],
                 session := [\<lparr>se_id = ''sid'', se_userId = ''u1'', se_refreshToken = ''sha:rt'',
                              se_ipAddress = ''ip'', se_userAgent = ''ua'',
                              se_expiresAt = 604801000\<rparr>]\<rparr>) \<and>
   login ex_env ex_adb 1000 ''sid'' ''rt'' (ex_dto (Some [])) ''ip'' ''ua'' =
     Inl (BadRequestException ''2FA code required'') \<and>
   login ex_env ex_adb 1000 ''sid'' ''rt'' (ex_dto (Some ''000000'')) ''ip'' ''ua'' =
     Inl (UnauthorizedException ''Invalid 2FA code'')"
proof -
  have u: "find (\<lambda>x. us_email x = toLowerCase (dto_email (ex_dto c))) (user ex_adb) = Some ex_user" for c
    by (simp add: auth_example_defs)
  have active: "us_isActive ex_user" and tfa: "us_twoFactorEnabled ex_user"
    by (simp_all add: ex_user_def)
  have pw: "argon2_verify ex_env (us_passwordHash ex_user) (dto_password (ex_dto c))" for c
    by (simp add: auth_example_defs)
  have sec: "find (\<lambda>x. tf_userId x = us_id ex_user) (twoFactorSecret ex_adb) = Some ex_secret"
    by (simp add: auth_example_defs)
  have ver: "tf_isVerified ex_secret" by (simp add: ex_secret_def)
  have dec: "decrypt ex_env (tf_encryptedSecret ex_secret) = Inr ''s3cr3t''"
    by (simp add: ex_env_def ex_secret_def)
  note T = login_two_factor[OF u active pw tfa sec ver dec, of _ 1000 "''sid''" "''rt''" "''ip''" "''ua''"]
  have good: "dto_totpCode (ex_dto (Some ''123456'')) = Some ''123456'' \<and> ''123456'' \<noteq> [] \<and>
              authenticator_verify ex_env 1000 ''123456'' ''s3cr3t''"
    by (simp add: ex_dto_def ex_env_def)
  have bad: "dto_totpCode (ex_dto (Some ''000000'')) = Some ''000000'' \<and> ''000000'' \<noteq> [] \<and>
             \<not> authenticator_verify ex_env 1000 ''000000'' ''s3cr3t'' \<and>
             \<not> fst (verifyRecoveryCode ex_env ex_adb 1000 (us_id ex_user) ''000000'')"
    by (simp add: ex_dto_def ex_env_def verifyRecoveryCode_def ex_adb_def emptyDb_def ex_user_def)
  have empty: "dto_totpCode (ex_dto (Some [])) = Some []" by (simp add: ex_dto_def)
  from T[of "Some ''123456''"] good
  have a: "login ex_env ex_adb 1000 ''sid'' ''rt'' (ex_dto (Some ''123456'')) ''ip'' ''ua'' =
             Inr (createAuthTokens ex_env
                    (ex_adb\<lparr>user := updateWhere (\<lambda>x. us_id x = us_id ex_user)
                                     (\<lambda>x. x\<lparr>us_lastLoginAt := Some 1000\<rparr>) (user ex_adb)\<rparr>)
                    1000 ''sid'' ''rt'' (us_id ex_user) (us_email ex_user) (us_role ex_user)
                    ''ip'' ''ua'')"
    by blast
  from T[of "Some []"] empty
  have b: "login ex_env ex_adb 1000 ''sid'' ''rt'' (ex_dto (Some [])) ''ip'' ''ua'' =
             Inl (BadRequestException ''2FA code required'')"
    by blast
  from T[of "Some ''000000''"] bad
  have c: "login ex_env ex_adb 1000 ''sid'' ''rt'' (ex_dto (Some ''000000'')) ''ip'' ''ua'' =
             Inl (UnauthorizedException ''Invalid 2FA code'')"
    by blast
  have tokens: "createAuthTokens ex_env
                    (ex_adb\<lparr>user := updateWhere (\<lambda>x. us_id x = us_id ex_user)
                                     (\<lambda>x. x\<lparr>us_lastLoginAt := Some 1000\<rparr>) (user ex_adb)\<rparr>)
                    1000 ''sid'' ''rt'' (us_id ex_user) (us_email ex_user) (us_role ex_user)
                    ''ip'' ''ua'' =
     (\<lparr>accessToken = ''jwt:sid'', refreshToken = ''rt'', expiresIn = 900\<rparr>,
          ex_adb\<lparr>user := [ex_user\<lparr>us_lastLoginAt := Some 1000\<rparr>],
                 session := [\<lparr>se_id = ''sid'', se_userId = ''u1'', se_refreshToken = ''sha:rt'',
                              se_ipAddress = ''ip'', se_userAgent = ''ua'',
                              se_expiresAt = 604801000\<rparr>]\<rparr>)"
    by (simp add: createAuthTokens_def createSession_def updateWhere_def ex_env_def ex_adb_def
        emptyDb_def ex_user_def Let_def)
  from a b c tokens show ?thesis by simp
qed

section \<open>Deposit scan: the scanned mark moves on when log queries fail\<close>

lemma recordEvent_cfg: "systemConfig (recordEvent newId ch a das cur ev s) = systemConfig s"
  by (simp add: recordEvent_def Let_def split: option.splits prod.splits)

lemma fold_recordEvent_cfg:
  "systemConfig (fold (recordEvent newId ch a das cur) evs s) = systemConfig s"
  by (induction evs arbitrary: s) (simp_all add: recordEvent_cfg)

lemma scanChunks_done:
  "\<not> block \<le> cur \<Longrightarrow> scanChunks rpc newId ch a c das cur block s = (Inr (), s)"
  by (subst scanChunks.simps) simp

lemma scanChunks_throw:
  "block \<le> cur \<Longrightarrow> queryFilter rpc c block (min (block + 2000 - 1) cur) = Inl e \<Longrightarrow>
   scanChunks rpc newId ch a c das cur block s = (Inl e, s)"
  by (subst scanChunks.simps) (simp add: Let_def)

lemma scanChunks_step:
  "block \<le> cur \<Longrightarrow> queryFilter rpc c block (min (block + 2000 - 1) cur) = Inr evs \<Longrightarrow>
   scanChunks rpc newId ch a c das cur block s =
     scanChunks rpc newId ch a c das cur (block + 2000)
       (fold (recordEvent newId ch a das cur) evs s)"
  by (subst scanChunks.simps) (simp add: Let_def)

lemma scanChunks_cfg:
  "systemConfig (snd (scanChunks rpc newId ch a c das cur block s)) = systemConfig s"
proof (induction rpc newId ch a c das cur block s rule: scanChunks.induct)
  case (1 rpc newId ch a c das cur block s)
  show ?case
  proof (cases "block \<le> cur")
    case False
    then show ?thesis by (simp add: scanChunks_done)
  next
    case True
    show ?thesis
    proof (cases "queryFilter rpc c block (min (block + 2000 - 1) cur)")
      case (Inl e)
      with True show ?thesis by (simp add: scanChunks_throw)
    next
      case (Inr evs)
      from "1.IH"[OF True refl Inr] True Inr show ?thesis
        by (simp add: scanChunks_step fold_recordEvent_cfg)
    qed
  qed
qed

lemma scanAsset_cfg: "systemConfig (scanAsset rpc newId ch das fromB cur a s) = systemConfig s"
  by (simp add: scanAsset_def scanChunks_cfg)

lemma fold_scanAsset_cfg:
  "systemConfig (fold (scanAsset rpc newId ch das fromB cur) xs s) = systemConfig s"
  by (induction xs arbitrary: s) (simp_all add: scanAsset_cfg)

lemma updatePending_cfg: "systemConfig (updatePending rpc ch cur now d s) = systemConfig s"
  by (simp add: updatePending_def upsertBalanceCache_def Let_def split: sum.splits option.splits)

lemma fold_updatePending_cfg:
  "systemConfig (fold (updatePending rpc ch cur now) ds s) = systemConfig s"
  by (induction ds arbitrary: s) (simp_all add: updatePending_cfg)

lemma scan_persists_head:
  assumes "getBlockNumber rpc = Inr head" and "fromBlockOf s ch head \<le> head"
  shows "fst (scanChainDeposits rpc newId now s ch) = Inr () \<and>
         systemConfig (snd (scanChainDeposits rpc newId now s ch)) (lastScannedKey ch) = Some head"
  using assms
  by (simp add: scanChainDeposits_def Let_def fold_updatePending_cfg)

lemma scanAsset_swallows:
  assumes "queryFilter rpc (the (as_contractAddress a)) fromB (min (fromB + 2000 - 1) cur) = Inl e"
  shows "scanAsset rpc newId ch das fromB cur a st = st"
proof (cases "fromB \<le> cur")
  case True
  with assms show ?thesis by (simp add: scanAsset_def scanChunks_throw)
next
  case False
  then show ?thesis by (simp add: scanAsset_def scanChunks_done)
qed

lemma fold_scanAsset_all_throw:
  assumes "\<forall>c f t. \<exists>e. queryFilter rpc c f t = Inl e"
  shows "fold (scanAsset rpc newId ch das fromB cur) xs s = s"
proof (induction xs arbitrary: s)
  case Nil
  then show ?case by simp
next
  case (Cons a xs)
  from assms obtain e where
    "queryFilter rpc (the (as_contractAddress a)) fromB (min (fromB + 2000 - 1) cur) = Inl e"
    by blast
  from scanAsset_swallows[OF this] Cons.IH show ?case by simp
qed

lemma scan_all_throw:
  assumes "getBlockNumber rpc = Inr head" and "fromBlockOf s ch head \<le> head"
      and "\<forall>c f t. \<exists>e. queryFilter rpc c f t = Inl e"
  shows "scanChainDeposits rpc newId now s ch =
           (Inr (), fold (updatePending rpc ch head now)
                      (filter (\<lambda>d. dp_chainId d = ch_id ch \<and> dp_status d = DEP_CONFIRMING)
                         (deposit s))
                      (s\<lparr>systemConfig := (systemConfig s)(lastScannedKey ch \<mapsto> head)\<rparr>))"
  using assms(1,2)
  by (simp add: scanChainDeposits_def Let_def fold_scanAsset_all_throw[OF assms(3)])

lemma next_pass_starts_above:
  assumes "systemConfig s' (lastScannedKey ch) = Some head" and "head \<noteq> 0"
  shows "head < fromBlockOf s' ch head'"
  using assms by (simp add: fromBlockOf_def lastScannedBlockOf_def)

lemma scanChunks_reads_from:
  assumes "\<forall>c f t. block \<le> f \<longrightarrow> queryFilter rpc2 c f t = queryFilter rpc c f t"
  shows "scanChunks rpc2 newId ch a c das cur block s = scanChunks rpc newId ch a c das cur block s"
  using assms
proof (induction rpc newId ch a c das cur block s rule: scanChunks.induct)
  case (1 rpc newId ch a c das cur block s)
  show ?case
  proof (cases "block \<le> cur")
    case False
    then show ?thesis by (simp add: scanChunks_done)
  next
    case True
    have q: "queryFilter rpc2 c block (min (block + 2000 - 1) cur) =
             queryFilter rpc c block (min (block + 2000 - 1) cur)"
      using "1.prems" by simp
    show ?thesis
    proof (cases "queryFilter rpc c block (min (block + 2000 - 1) cur)")
      case (Inl e)
      with True q show ?thesis by (simp add: scanChunks_throw)
    next
      case (Inr evs)
      have "\<forall>c f t. block + 2000 \<le> f \<longrightarrow> queryFilter rpc2 c f t = queryFilter rpc c f t"
        using "1.prems" by simp
      from "1.IH"[OF True refl Inr this] True q Inr show ?thesis
        by (simp add: scanChunks_step)
    qed
  qed
qed

lemma scanChainDeposits_reads_from:
  assumes "getBlockNumber rpc2 = getBlockNumber rpc"
      and "getTransactionReceipt rpc2 = getTransactionReceipt rpc"
      and "getBlockNumber rpc = Inr head'"
      and "\<forall>c f t. fromBlockOf s ch head' \<le> f \<longrightarrow> queryFilter rpc2 c f t = queryFilter rpc c f t"
  shows "scanChainDeposits rpc2 newId now s ch = scanChainDeposits rpc newId now s ch"
proof -
  have a: "scanAsset rpc2 newId ch das (fromBlockOf s ch head') head' =
           scanAsset rpc newId ch das (fromBlockOf s ch head') head'" for das
    by (intro ext) (simp add: scanAsset_def scanChunks_reads_from[OF assms(4)])
  have b: "updatePending rpc2 ch head' now = updatePending rpc ch head' now"
    by (intro ext) (simp add: updatePending_def assms(2))
  show ?thesis
    by (simp add: scanChainDeposits_def assms(1,3) a b Let_def)
qed

lemma scan_mark_monotone:
  assumes "systemConfig st (lastScannedKey ch) = Some m" and "m \<noteq> 0"
  shows "\<exists>m'. m \<le> m' \<and>
           systemConfig (snd (scanChainDeposits rpc newId now st ch)) (lastScannedKey ch) = Some m'"
proof (cases "getBlockNumber rpc")
  case (Inl e)
  with assms show ?thesis by (simp add: scanChainDeposits_def)
next
  case (Inr h)
  show ?thesis
  proof (cases "fromBlockOf st ch h \<le> h")
    case False
    with Inr assms show ?thesis by (simp add: scanChainDeposits_def Let_def)
  next
    case True
    from next_pass_starts_above[OF assms, of h] True have "m \<le> h" by simp
    with scan_persists_head[OF Inr True, of newId now] show ?thesis by simp
  qed
qed

text \<open>
  Claim C10. A scan pass that finds blocks to scan (the head is at or above the pass's
  \<open>fromBlock\<close>) returns normally and stores the head as \<open>lastScannedBlock\<close> of the chain,
  whatever the log queries do. An asset whose first log query throws leaves the store as
  it was (the exception does not leave the loop), and when every log query throws the
  pass is exactly: store the head, then re-check the CONFIRMING deposit rows. With a head
  other than block 0 (a stored 0 reads as no mark), every later pass starts above that
  head and its result does not depend on what the log query returns for a range that
  starts at or below it, and no pass lowers a stored mark: the range is not scanned again.
\<close>

theorem scan_marks_head_when_log_query_throws:
  assumes head: "getBlockNumber rpc = Inr head"
      and blocks: "fromBlockOf s ch head \<le> head"
  shows "fst (scanChainDeposits rpc newId now s ch) = Inr () \<and>
         systemConfig (snd (scanChainDeposits rpc newId now s ch)) (lastScannedKey ch) = Some head \<and>
         (\<forall>a das st e.
             queryFilter rpc (the (as_contractAddress a)) (fromBlockOf s ch head)
                (min (fromBlockOf s ch head + 2000 - 1) head) = Inl e
             \<longrightarrow> scanAsset rpc newId ch das (fromBlockOf s ch head) head a st = st) \<and>
         ((\<forall>c f t. \<exists>e. queryFilter rpc c f t = Inl e) \<longrightarrow>
             scanChainDeposits rpc newId now s ch =
               (Inr (), fold (updatePending rpc ch head now)
                          (filter (\<lambda>d. dp_chainId d = ch_id ch \<and> dp_status d = DEP_CONFIRMING)
                             (deposit s))
                          (s\<lparr>systemConfig := (systemConfig s)(lastScannedKey ch \<mapsto> head)\<rparr>))) \<and>
         (head \<noteq> 0 \<longrightarrow>
            (\<forall>head'. head < fromBlockOf (snd (scanChainDeposits rpc newId now s ch)) ch head') \<and>
            (\<forall>rpc1 rpc2 newId' now' head'.
                getBlockNumber rpc1 = Inr head' \<and> getBlockNumber rpc2 = Inr head' \<and>
                getTransactionReceipt rpc2 = getTransactionReceipt rpc1 \<and>
                (\<forall>c f t. head < f \<longrightarrow> queryFilter rpc2 c f t = queryFilter rpc1 c f t)
                \<longrightarrow> scanChainDeposits rpc2 newId' now' (snd (scanChainDeposits rpc newId now s ch)) ch =
                    scanChainDeposits rpc1 newId' now' (snd (scanChainDeposits rpc newId now s ch)) ch)) \<and>
         (\<forall>st m rpc1 newId' now'.
             systemConfig st (lastScannedKey ch) = Some m \<and> m \<noteq> 0
             \<longrightarrow> (\<exists>m'. m \<le> m' \<and>
                    systemConfig (snd (scanChainDeposits rpc1 newId' now' st ch)) (lastScannedKey ch) =
                      Some m'))"
proof -
  let ?s' = "snd (scanChainDeposits rpc newId now s ch)"
  note mark = scan_persists_head[OF head blocks, of newId now]
  have later: "head < fromBlockOf ?s' ch head'" if "head \<noteq> 0" for head'
    using next_pass_starts_above[of ?s' ch head head'] mark that by simp
  have indep: "scanChainDeposits rpc2 newId' now' ?s' ch = scanChainDeposits rpc1 newId' now' ?s' ch"
    if nz: "head \<noteq> 0" and h1: "getBlockNumber rpc1 = Inr head'" and h2: "getBlockNumber rpc2 = Inr head'"
      and rc: "getTransactionReceipt rpc2 = getTransactionReceipt rpc1"
      and q: "\<forall>c f t. head < f \<longrightarrow> queryFilter rpc2 c f t = queryFilter rpc1 c f t"
    for rpc1 rpc2 newId' now' head'
  proof -
    from later[OF nz, of head'] q
    have "\<forall>c f t. fromBlockOf ?s' ch head' \<le> f \<longrightarrow> queryFilter rpc2 c f t = queryFilter rpc1 c f t"
      by simp
    from scanChainDeposits_reads_from[OF _ rc h1 this] h1 h2 show ?thesis by simp
  qed
  show ?thesis
  proof (intro conjI allI impI)
    show "fst (scanChainDeposits rpc newId now s ch) = Inr ()" using mark by simp
    show "systemConfig ?s' (lastScannedKey ch) = Some head" using mark by simp
  next
    fix a :: Asset and das st e
    assume "queryFilter rpc (the (as_contractAddress a)) (fromBlockOf s ch head)
                (min (fromBlockOf s ch head + 2000 - 1) head) = Inl e"
    then show "scanAsset rpc newId ch das (fromBlockOf s ch head) head a st = st"
      by (rule scanAsset_swallows)
  next
    assume "\<forall>c f t. \<exists>e. queryFilter rpc c f t = Inl e"
    from scan_all_throw[OF head blocks this]
    show "scanChainDeposits rpc newId now s ch =
               (Inr (), fold (updatePending rpc ch head now)
                          (filter (\<lambda>d. dp_chainId d = ch_id ch \<and> dp_status d = DEP_CONFIRMING)
                             (deposit s))
                          (s\<lparr>systemConfig := (systemConfig s)(lastScannedKey ch \<mapsto> head)\<rparr>))" .
  next
    fix head'
    assume "head \<noteq> 0"
    then show "head < fromBlockOf ?s' ch head'" by (rule later)
  next
    fix rpc1 rpc2 :: ChainRpc and newId' now' head'
    assume "head \<noteq> 0" and
      "getBlockNumber rpc1 = Inr head' \<and> getBlockNumber rpc2 = Inr head' \<and>
       getTransactionReceipt rpc2 = getTransactionReceipt rpc1 \<and>
       (\<forall>c f t. head < f \<longrightarrow> queryFilter rpc2 c f t = queryFilter rpc1 c f t)"
    then show "scanChainDeposits rpc2 newId' now' ?s' ch = scanChainDeposits rpc1 newId' now' ?s' ch"
      using indep by blast
  next
    fix st :: db and m and rpc1 :: ChainRpc and newId' now'
    assume "systemConfig st (lastScannedKey ch) = Some m \<and> m \<noteq> 0"
    then show "\<exists>m'. m \<le> m' \<and>
       systemConfig (snd (scanChainDeposits rpc1 newId' now' st ch)) (lastScannedKey ch) = Some m'"
      using scan_mark_monotone by blast
  qed
qed

theorem scan_marks_head_when_log_query_throws_witness:
  "getBlockNumber ex_rpc = Inr 5000 \<and> fromBlockOf ex_scandb ex_chain 5000 = 4001 \<and>
   queryFilter ex_rpc ''0xc0'' 4001 5000 = Inl (Error ''rpc timeout'') \<and>
   scanChainDeposits ex_rpc ex_newId 7000 ex_scandb ex_chain =
     (Inr (), ex_scandb\<lparr>systemConfig := [lastScannedKey ex_chain \<mapsto> 5000]\<rparr>) \<and>
   5000 < fromBlockOf (snd (scanChainDeposits ex_rpc ex_newId 7000 ex_scandb ex_chain)) ex_chain 5003 \<and>
   scanChainDeposits (ex_rpc\<lparr>getBlockNumber := Inr 5003,
                             queryFilter := (\<lambda>c f t. if f \<le> 5000 then Inr [] else Inl (Error ''rpc timeout''))\<rparr>)
       ex_newId 8000 (snd (scanChainDeposits ex_rpc ex_newId 7000 ex_scandb ex_chain)) ex_chain =
     scanChainDeposits (ex_rpc\<lparr>getBlockNumber := Inr 5003\<rparr>) ex_newId 8000
       (snd (scanChainDeposits ex_rpc ex_newId 7000 ex_scandb ex_chain)) ex_chain"
proof -
  have head: "getBlockNumber ex_rpc = Inr 5000" by (simp add: ex_rpc_def)
  have start: "fromBlockOf ex_scandb ex_chain 5000 = 4001"
    by (simp add: fromBlockOf_def lastScannedBlockOf_def ex_scandb_def emptyDb_def)
  then have blocks: "fromBlockOf ex_scandb ex_chain 5000 \<le> 5000" by simp
  have q: "queryFilter ex_rpc ''0xc0'' 4001 5000 = Inl (Error ''rpc timeout'')"
    by (simp add: ex_rpc_def)
  have all: "\<forall>c f t. \<exists>e. queryFilter ex_rpc c f t = Inl e" by (simp add: ex_rpc_def)
  note T = scan_marks_head_when_log_query_throws[OF head blocks, of ex_newId 7000]
  from T all have run: "scanChainDeposits ex_rpc ex_newId 7000 ex_scandb ex_chain =
       (Inr (), fold (updatePending ex_rpc ex_chain 5000 7000)
                  (filter (\<lambda>d. dp_chainId d = ch_id ex_chain \<and> dp_status d = DEP_CONFIRMING)
                     (deposit ex_scandb))
                  (ex_scandb\<lparr>systemConfig := (systemConfig ex_scandb)(lastScannedKey ex_chain \<mapsto> 5000)\<rparr>))"
    by blast
  then have run': "scanChainDeposits ex_rpc ex_newId 7000 ex_scandb ex_chain =
     (Inr (), ex_scandb\<lparr>systemConfig := [lastScannedKey ex_chain \<mapsto> 5000]\<rparr>)"
    by (simp add: ex_scandb_def emptyDb_def)
  have nz: "(5000::int) \<noteq> 0" by simp
  from T nz have above:
    "5000 < fromBlockOf (snd (scanChainDeposits ex_rpc ex_newId 7000 ex_scandb ex_chain)) ex_chain 5003"
    by blast
  let ?r1 = "ex_rpc\<lparr>getBlockNumber := Inr 5003\<rparr>"
  let ?r2 = "ex_rpc\<lparr>getBlockNumber := Inr 5003,
                queryFilter := (\<lambda>c f t. if f \<le> 5000 then Inr [] else Inl (Error ''rpc timeout''))\<rparr>"
  have agree: "getBlockNumber ?r1 = Inr 5003 \<and> getBlockNumber ?r2 = Inr 5003 \<and>
      getTransactionReceipt ?r2 = getTransactionReceipt ?r1 \<and>
      (\<forall>c f t. 5000 < f \<longrightarrow> queryFilter ?r2 c f t = queryFilter ?r1 c f t)"
    by (simp add: ex_rpc_def)
  from T nz agree have same:
    "scanChainDeposits ?r2 ex_newId 8000 (snd (scanChainDeposits ex_rpc ex_newId 7000 ex_scandb ex_chain)) ex_chain =
     scanChainDeposits ?r1 ex_newId 8000 (snd (scanChainDeposits ex_rpc ex_newId 7000 ex_scandb ex_chain)) ex_chain"
    by blast
  from head start q run' above same show ?thesis by simp
qed

end
